theory Spec2Isabelle
  imports Main "HOL-Library.Word" "HOL-Library.Sublist"
begin

unbundle bit_operations_syntax

section \<open>JavaScript strings and byte arrays\<close>

text \<open>
  The worker of \<^verbatim>\<open>src/workload/cloudflare/src\<close> (\<^verbatim>\<open>jwt.ts\<close> and \<^verbatim>\<open>index.ts\<close>) is
  embedded function by function. A JavaScript string is the list of its UTF-16 code
  units, a \<^verbatim>\<open>Uint8Array\<close> the list of its bytes. \<open>js\<close> lifts an ASCII literal,
  \<open>js_split\<close> is \<^verbatim>\<open>String.prototype.split\<close> with a one-character separator,
  \<open>js_join\<close> is \<^verbatim>\<open>Array.prototype.join\<close>. \<open>toUpperCase\<close> is used on HTTP methods
  only, which are ASCII tokens.
\<close>

type_synonym cu = "16 word"
type_synonym jsstring = "cu list"
type_synonym byte = "8 word"

definition js :: "string \<Rightarrow> jsstring" where
  "js s = map of_char s"

fun js_split :: "'a \<Rightarrow> 'a list \<Rightarrow> 'a list list" where
  "js_split d [] = [[]]"
| "js_split d (c # cs) =
     (if c = d then [] # js_split d cs
      else (case js_split d cs of [] \<Rightarrow> [[c]] | p # ps \<Rightarrow> (c # p) # ps))"

fun js_join :: "jsstring \<Rightarrow> jsstring list \<Rightarrow> jsstring" where
  "js_join sep [] = []"
| "js_join sep [x] = x"
| "js_join sep (x # y # ys) = x @ sep @ js_join sep (y # ys)"

definition toUpperCase :: "jsstring \<Rightarrow> jsstring" where
  "toUpperCase s = map (\<lambda>c. if 0x61 \<le> c \<and> c \<le> 0x7A then c - 0x20 else c) s"

section \<open>Errors\<close>

text \<open>
  What can be thrown. \<open>Error m\<close> is \<^verbatim>\<open>new Error(m)\<close>, \<open>HTTPException st m\<close> is hono's
  exception, \<open>ThrownString t\<close> is \<^verbatim>\<open>throw 't'\<close>. \<open>TypeError\<close>, \<open>SyntaxError\<close> and
  \<open>InvalidCharacterError\<close> are raised by the engine (a property read on \<^verbatim>\<open>null\<close>,
  \<^verbatim>\<open>JSON.parse\<close>, \<^verbatim>\<open>atob\<close>); the wording of their messages belongs to the engine.
  \<open>PlatformError\<close> is a failure of the network, of WebCrypto or of the YAML library.
  \<open>Unmodelled\<close> marks the inputs this embedding does not follow: a JSON number with a
  fraction or an exponent, a persisted table that does not have the shape of
  \<^verbatim>\<open>HostsConfig\<close>, a workload name with a metacharacter of the router, a provider name
  that resolves to a property inherited from \<^verbatim>\<open>Object.prototype\<close>.
\<close>

datatype error =
    Error jsstring
  | HTTPException nat jsstring
  | ThrownString jsstring
  | TypeError
  | SyntaxError
  | InvalidCharacterError
  | PlatformError jsstring
  | Unmodelled

section \<open>JSON values\<close>

text \<open>
  The JavaScript values that JSON can carry. Numbers are the integers (exact in a double
  up to \<open>2^53\<close>). An object lists its own properties in order. \<open>get_prop\<close> is the
  read \<^verbatim>\<open>v.name\<close> for the names this program reads (\<^verbatim>\<open>exp\<close>, \<^verbatim>\<open>email\<close>, \<^verbatim>\<open>kid\<close>,
  \<^verbatim>\<open>public\<close>, \<^verbatim>\<open>private\<close>), none of which a prototype defines: the result is
  \<open>None\<close> for \<^verbatim>\<open>undefined\<close>, and reading from \<^verbatim>\<open>null\<close> throws.
\<close>

datatype json =
    JNull
  | JBool bool
  | JNum int
  | JStr jsstring
  | JArr "json list"
  | JObj "(jsstring \<times> json) list"

fun truthy :: "json \<Rightarrow> bool" where
  "truthy JNull = False"
| "truthy (JBool b) = b"
| "truthy (JNum n) = (n \<noteq> 0)"
| "truthy (JStr s) = (s \<noteq> [])"
| "truthy (JArr xs) = True"
| "truthy (JObj ms) = True"

fun get_prop :: "json \<Rightarrow> jsstring \<Rightarrow> error + json option" where
  "get_prop JNull k = Inl TypeError"
| "get_prop (JObj ms) k = Inr (map_of ms k)"
| "get_prop v k = Inr None"

fun obj_set :: "('a \<times> 'b) list \<Rightarrow> 'a \<Rightarrow> 'b \<Rightarrow> ('a \<times> 'b) list" where
  "obj_set [] k v = [(k, v)]"
| "obj_set ((k', v') # ms) k v = (if k' = k then (k, v) # ms else (k', v') # obj_set ms k v)"

subsection \<open>JSON.stringify\<close>

definition hexdigit :: "int \<Rightarrow> cu" where
  "hexdigit n = (if n < 10 then of_int (0x30 + n) else of_int (0x61 + (n - 10)))"

definition hex4 :: "cu \<Rightarrow> jsstring" where
  "hex4 c = (let n = uint c in
     [hexdigit (n div 4096), hexdigit ((n div 256) mod 16), hexdigit ((n div 16) mod 16), hexdigit (n mod 16)])"

definition is_high_surrogate :: "cu \<Rightarrow> bool" where
  "is_high_surrogate c = (0xD800 \<le> c \<and> c \<le> 0xDBFF)"

definition is_low_surrogate :: "cu \<Rightarrow> bool" where
  "is_low_surrogate c = (0xDC00 \<le> c \<and> c \<le> 0xDFFF)"

definition unicode_escape :: "cu \<Rightarrow> jsstring" where
  "unicode_escape c = [0x5C, 0x75] @ hex4 c"

definition quote_unit :: "cu \<Rightarrow> jsstring" where
  "quote_unit c =
     (if c = 0x08 then [0x5C, 0x62]
      else if c = 0x09 then [0x5C, 0x74]
      else if c = 0x0A then [0x5C, 0x6E]
      else if c = 0x0C then [0x5C, 0x66]
      else if c = 0x0D then [0x5C, 0x72]
      else if c = 0x22 then [0x5C, 0x22]
      else if c = 0x5C then [0x5C, 0x5C]
      else if c < 0x20 then unicode_escape c
      else [c])"

fun quote_body :: "jsstring \<Rightarrow> jsstring" where
  "quote_body [] = []"
| "quote_body [c] =
     (if is_high_surrogate c \<or> is_low_surrogate c then unicode_escape c else quote_unit c)"
| "quote_body (c # d # cs) =
     (if is_high_surrogate c then
        (if is_low_surrogate d then c # d # quote_body cs
         else unicode_escape c @ quote_body (d # cs))
      else if is_low_surrogate c then unicode_escape c @ quote_body (d # cs)
      else quote_unit c @ quote_body (d # cs))"

definition QuoteJSONString :: "jsstring \<Rightarrow> jsstring" where
  "QuoteJSONString s = [0x22] @ quote_body s @ [0x22]"

function dec_digits :: "int \<Rightarrow> jsstring" where
  "dec_digits n = (if n < 10 then [of_int (0x30 + n)]
                   else dec_digits (n div 10) @ [of_int (0x30 + n mod 10)])"
  by pat_completeness auto
termination
  by (relation "measure nat") auto

definition number_toString :: "int \<Rightarrow> jsstring" where
  "number_toString i = (if i < 0 then 0x2D # dec_digits (- i) else dec_digits i)"

fun JSON_stringify :: "json \<Rightarrow> jsstring" where
  "JSON_stringify JNull = js ''null''"
| "JSON_stringify (JBool b) = (if b then js ''true'' else js ''false'')"
| "JSON_stringify (JNum n) = number_toString n"
| "JSON_stringify (JStr s) = QuoteJSONString s"
| "JSON_stringify (JArr xs) = [0x5B] @ js_join [0x2C] (map JSON_stringify xs) @ [0x5D]"
| "JSON_stringify (JObj ms) =
     [0x7B] @ js_join [0x2C] (map (\<lambda>(k, v). QuoteJSONString k @ [0x3A] @ JSON_stringify v) ms) @ [0x7D]"


subsection \<open>JSON.parse\<close>

definition is_json_ws :: "cu \<Rightarrow> bool" where
  "is_json_ws c = (c = 0x20 \<or> c = 0x09 \<or> c = 0x0A \<or> c = 0x0D)"

definition skip_ws :: "jsstring \<Rightarrow> jsstring" where
  "skip_ws s = dropWhile is_json_ws s"

definition is_digit :: "cu \<Rightarrow> bool" where
  "is_digit c = (0x30 \<le> c \<and> c \<le> 0x39)"

definition hexval :: "cu \<Rightarrow> int option" where
  "hexval c =
     (if 0x30 \<le> c \<and> c \<le> 0x39 then Some (uint c - 0x30)
      else if 0x61 \<le> c \<and> c \<le> 0x66 then Some (uint c - 0x61 + 10)
      else if 0x41 \<le> c \<and> c \<le> 0x46 then Some (uint c - 0x41 + 10)
      else None)"

definition hex4_value :: "cu \<Rightarrow> cu \<Rightarrow> cu \<Rightarrow> cu \<Rightarrow> cu option" where
  "hex4_value a b c d =
     (case (hexval a, hexval b, hexval c, hexval d) of
        (Some w, Some x, Some y, Some z) \<Rightarrow> Some (of_int (((w * 16 + x) * 16 + y) * 16 + z))
      | _ \<Rightarrow> None)"

definition unescape :: "cu \<Rightarrow> cu option" where
  "unescape e =
     (if e = 0x22 then Some 0x22
      else if e = 0x5C then Some 0x5C
      else if e = 0x2F then Some 0x2F
      else if e = 0x62 then Some 0x08
      else if e = 0x66 then Some 0x0C
      else if e = 0x6E then Some 0x0A
      else if e = 0x72 then Some 0x0D
      else if e = 0x74 then Some 0x09
      else None)"

definition cons_result :: "cu \<Rightarrow> (jsstring \<times> jsstring) option \<Rightarrow> (jsstring \<times> jsstring) option" where
  "cons_result c r = (case r of None \<Rightarrow> None | Some (str, rest) \<Rightarrow> Some (c # str, rest))"

fun parse_string_body :: "jsstring \<Rightarrow> (jsstring \<times> jsstring) option" where
  "parse_string_body [] = None"
| "parse_string_body (c # cs) =
     (if c = 0x22 then Some ([], cs)
      else if c = 0x5C then
        (case cs of
           [] \<Rightarrow> None
         | e # r \<Rightarrow>
             (if e = 0x75 then
                (case r of
                   h1 # h2 # h3 # h4 # r' \<Rightarrow>
                     (case hex4_value h1 h2 h3 h4 of
                        None \<Rightarrow> None
                      | Some u \<Rightarrow> cons_result u (parse_string_body r'))
                 | _ \<Rightarrow> None)
              else
                (case unescape e of
                   None \<Rightarrow> None
                 | Some x \<Rightarrow> cons_result x (parse_string_body r))))
      else if c < 0x20 then None
      else cons_result c (parse_string_body cs))"

definition digits_value :: "jsstring \<Rightarrow> int" where
  "digits_value ds = foldl (\<lambda>a d. a * 10 + (uint d - 0x30)) 0 ds"

definition parse_number :: "jsstring \<Rightarrow> error + (json \<times> jsstring)" where
  "parse_number s =
     (let neg = (case s of [] \<Rightarrow> False | c # _ \<Rightarrow> c = 0x2D);
          s1 = (if neg then tl s else s)
      in case s1 of
           [] \<Rightarrow> Inl SyntaxError
         | d # r \<Rightarrow>
             if \<not> is_digit d then Inl SyntaxError
             else
               (let ds = (if d = 0x30 then [d] else takeWhile is_digit s1);
                    rest = (if d = 0x30 then r else dropWhile is_digit s1);
                    n = digits_value ds
                in case rest of
                     [] \<Rightarrow> Inr (JNum (if neg then - n else n), rest)
                   | c # _ \<Rightarrow>
                       if c = 0x2E \<or> c = 0x65 \<or> c = 0x45 then Inl Unmodelled
                       else Inr (JNum (if neg then - n else n), rest)))"

fun parse_value :: "nat \<Rightarrow> jsstring \<Rightarrow> error + (json \<times> jsstring)"
  and parse_elems :: "nat \<Rightarrow> jsstring \<Rightarrow> json list \<Rightarrow> error + (json \<times> jsstring)"
  and parse_members :: "nat \<Rightarrow> jsstring \<Rightarrow> (jsstring \<times> json) list \<Rightarrow> error + (json \<times> jsstring)"
where
  "parse_value 0 s = Inl Unmodelled"
| "parse_value (Suc n) s =
     (case skip_ws s of
        [] \<Rightarrow> Inl SyntaxError
      | c # r \<Rightarrow>
          if c = 0x22 then
            (case parse_string_body r of
               None \<Rightarrow> Inl SyntaxError
             | Some (str, rest) \<Rightarrow> Inr (JStr str, rest))
          else if c = 0x5B then
            (case skip_ws r of
               [] \<Rightarrow> Inl SyntaxError
             | d # r' \<Rightarrow> if d = 0x5D then Inr (JArr [], r') else parse_elems n r [])
          else if c = 0x7B then
            (case skip_ws r of
               [] \<Rightarrow> Inl SyntaxError
             | d # r' \<Rightarrow> if d = 0x7D then Inr (JObj [], r') else parse_members n r [])
          else if take 4 (c # r) = js ''true'' then Inr (JBool True, drop 3 r)
          else if take 5 (c # r) = js ''false'' then Inr (JBool False, drop 4 r)
          else if take 4 (c # r) = js ''null'' then Inr (JNull, drop 3 r)
          else if c = 0x2D \<or> is_digit c then parse_number (c # r)
          else Inl SyntaxError)"
| "parse_elems 0 s acc = Inl Unmodelled"
| "parse_elems (Suc n) s acc =
     (case parse_value n s of
        Inl e \<Rightarrow> Inl e
      | Inr (v, rest) \<Rightarrow>
          (case skip_ws rest of
             [] \<Rightarrow> Inl SyntaxError
           | c # r \<Rightarrow>
               if c = 0x2C then parse_elems n r (acc @ [v])
               else if c = 0x5D then Inr (JArr (acc @ [v]), r)
               else Inl SyntaxError))"
| "parse_members 0 s acc = Inl Unmodelled"
| "parse_members (Suc n) s acc =
     (case skip_ws s of
        [] \<Rightarrow> Inl SyntaxError
      | q # r0 \<Rightarrow>
          if q \<noteq> 0x22 then Inl SyntaxError
          else
            (case parse_string_body r0 of
               None \<Rightarrow> Inl SyntaxError
             | Some (k, rest) \<Rightarrow>
                 (case skip_ws rest of
                    [] \<Rightarrow> Inl SyntaxError
                  | c # r \<Rightarrow>
                      if c \<noteq> 0x3A then Inl SyntaxError
                      else
                        (case parse_value n r of
                           Inl e \<Rightarrow> Inl e
                         | Inr (v, rest') \<Rightarrow>
                             (case skip_ws rest' of
                                [] \<Rightarrow> Inl SyntaxError
                              | c' # r' \<Rightarrow>
                                  if c' = 0x2C then parse_members n r' (obj_set acc k v)
                                  else if c' = 0x7D then Inr (JObj (obj_set acc k v), r')
                                  else Inl SyntaxError)))))"

definition JSON_parse :: "jsstring \<Rightarrow> error + json" where
  "JSON_parse s =
     (case parse_value (Suc (2 * length s)) s of
        Inl e \<Rightarrow> Inl e
      | Inr (v, rest) \<Rightarrow> if skip_ws rest = [] then Inr v else Inl SyntaxError)"




text \<open>
  The parser recurses on a fuel argument. Every successful step consumes input
  (\<open>parser_consumes\<close>), so the fuel \<open>JSON_parse\<close> gives, twice the length of the text
  and one, is never used up: any larger fuel gives the same result (\<open>JSON_parse_fuel\<close>).
\<close>

lemma length_skip_ws: "length (skip_ws s) \<le> length s"
  by (simp add: skip_ws_def length_dropWhile_le)

lemma skip_ws_Cons_length:
  assumes "skip_ws s = c # r"
  shows "length r < length s"
  using length_skip_ws[of s] assms by simp

lemma cons_result_Some:
  "cons_result c x = Some (str, rest) \<Longrightarrow> \<exists>str'. x = Some (str', rest) \<and> str = c # str'"
  by (auto simp: cons_result_def split: option.splits)

lemma parse_string_body_consumes:
  "parse_string_body cs = Some (str, rest) \<Longrightarrow> length rest < length cs"
proof (induction cs arbitrary: str rest rule: length_induct)
  case (1 xs)
  have IH: "parse_string_body ys = Some (str', rest') \<Longrightarrow> length ys < length xs
            \<Longrightarrow> length rest' < length ys" for ys str' rest'
    using "1.IH" by blast
  show ?case
  proof (cases xs)
    case Nil
    with "1.prems" show ?thesis by simp
  next
    case (Cons c cs)
    with "1.prems" show ?thesis
      by (auto split: if_splits list.splits option.splits dest!: cons_result_Some)
         (force dest: IH)+
  qed
qed

lemma parse_number_consumes:
  assumes "parse_number s = Inr (v, rest)"
  shows "length rest < length s"
proof -
  have d: "length (dropWhile is_digit xs) \<le> length xs" for xs :: jsstring
    by (rule length_dropWhile_le)
  have d2: "length (dropWhile is_digit (x # xs)) < length (x # xs)" if "is_digit x" for x xs
    using that d[of xs] by simp
  from assms show ?thesis
    by (cases s) (auto simp: parse_number_def Let_def split: list.splits if_splits
                       intro: le_imp_less_Suc d d2 less_SucI)
qed

lemma parser_consumes:
  "(\<forall>s v rest. parse_value n s = Inr (v, rest) \<longrightarrow> length rest < length s)
   \<and> (\<forall>s acc v rest. parse_elems n s acc = Inr (v, rest) \<longrightarrow> length rest < length s)
   \<and> (\<forall>s acc v rest. parse_members n s acc = Inr (v, rest) \<longrightarrow> length rest < length s)"
proof (induction n)
  case 0
  then show ?case by simp
next
  case (Suc n)
  have V: "parse_value n s = Inr (v, rest) \<Longrightarrow> length rest < length s" for s v rest
    using Suc.IH by blast
  have E: "parse_elems n s acc = Inr (v, rest) \<Longrightarrow> length rest < length s" for s acc v rest
    using Suc.IH by blast
  have M: "parse_members n s acc = Inr (v, rest) \<Longrightarrow> length rest < length s" for s acc v rest
    using Suc.IH by blast
  have v: "length rest < length s" if h: "parse_value (Suc n) s = Inr (v, rest)" for s v rest
  proof (cases "skip_ws s")
    case Nil
    with h show ?thesis by simp
  next
    case (Cons c r)
    have lr: "length r < length s" using Cons by (rule skip_ws_Cons_length)
    consider (str) "c = 0x22" | (arr) "c \<noteq> 0x22" "c = 0x5B" | (obj) "c \<noteq> 0x22" "c \<noteq> 0x5B" "c = 0x7B"
      | (other) "c \<noteq> 0x22" "c \<noteq> 0x5B" "c \<noteq> 0x7B" by blast
    then show ?thesis
    proof cases
      case str
      with h Cons obtain x where "parse_string_body r = Some (x, rest)"
        by (auto split: option.splits)
      then have "length rest < length r" by (rule parse_string_body_consumes)
      with lr show ?thesis by simp
    next
      case arr
      show ?thesis
      proof (cases "skip_ws r")
        case Nil
        with h Cons arr show ?thesis by simp
      next
        case (Cons d r')
        have "length r' < length r" using Cons by (rule skip_ws_Cons_length)
        moreover have "d \<noteq> 0x5D \<Longrightarrow> length rest < length r"
          using h \<open>skip_ws s = c # r\<close> arr Cons by (auto dest: E)
        moreover have "d = 0x5D \<Longrightarrow> rest = r'"
          using h \<open>skip_ws s = c # r\<close> arr Cons by auto
        ultimately show ?thesis using lr by (cases "d = 0x5D") auto
      qed
    next
      case obj
      show ?thesis
      proof (cases "skip_ws r")
        case Nil
        with h Cons obj show ?thesis by simp
      next
        case (Cons d r')
        have "length r' < length r" using Cons by (rule skip_ws_Cons_length)
        moreover have "d \<noteq> 0x7D \<Longrightarrow> length rest < length r"
          using h \<open>skip_ws s = c # r\<close> obj Cons by (auto dest: M)
        moreover have "d = 0x7D \<Longrightarrow> rest = r'"
          using h \<open>skip_ws s = c # r\<close> obj Cons by auto
        ultimately show ?thesis using lr by (cases "d = 0x7D") auto
      qed
    next
      case other
      have "length rest \<le> length r \<or> parse_number (c # r) = Inr (v, rest)"
        using h Cons other by (auto split: if_splits)
      moreover have "length rest \<le> length r" if "parse_number (c # r) = Inr (v, rest)"
        using parse_number_consumes[OF that] by simp
      ultimately show ?thesis using lr by auto
    qed
  qed
  have e: "length rest < length s" if h: "parse_elems (Suc n) s acc = Inr (v, rest)" for s acc v rest
  proof -
    from h obtain x rest1 where pv: "parse_value n s = Inr (x, rest1)"
      by (auto split: sum.splits)
    have l1: "length rest1 < length s" using pv by (rule V)
    show ?thesis
    proof (cases "skip_ws rest1")
      case Nil
      with h pv show ?thesis by simp
    next
      case (Cons c r)
      have lr: "length r < length rest1" using Cons by (rule skip_ws_Cons_length)
      have "c = 0x2C \<Longrightarrow> length rest < length r"
        using h pv Cons by (auto dest: E)
      moreover have "c \<noteq> 0x2C \<Longrightarrow> rest = r"
        using h pv Cons by (auto split: if_splits)
      ultimately show ?thesis using l1 lr by (cases "c = 0x2C") auto
    qed
  qed
  have m: "length rest < length s" if h: "parse_members (Suc n) s acc = Inr (v, rest)" for s acc v rest
  proof -
    from h obtain q r0 where s0: "skip_ws s = q # r0"
      by (cases "skip_ws s") auto
    have l0: "length r0 < length s" using s0 by (rule skip_ws_Cons_length)
    from h s0 obtain k rest1 where sb: "parse_string_body r0 = Some (k, rest1)" and q: "q = 0x22"
      by (auto split: if_splits option.splits)
    have l1: "length rest1 < length r0" using sb by (rule parse_string_body_consumes)
    from h s0 sb q obtain c r where s1: "skip_ws rest1 = c # r" and c: "c = 0x3A"
      by (cases "skip_ws rest1") (auto split: if_splits)
    have l2: "length r < length rest1" using s1 by (rule skip_ws_Cons_length)
    from h s0 sb q s1 c obtain x rest2 where pv: "parse_value n r = Inr (x, rest2)"
      by (auto split: sum.splits)
    have l3: "length rest2 < length r" using pv by (rule V)
    from h s0 sb q s1 c pv obtain c' r' where s2: "skip_ws rest2 = c' # r'"
      by (cases "skip_ws rest2") auto
    have l4: "length r' < length rest2" using s2 by (rule skip_ws_Cons_length)
    have "c' = 0x2C \<Longrightarrow> length rest < length r'"
      using h s0 sb q s1 c pv s2 by (auto dest: M)
    moreover have "c' \<noteq> 0x2C \<Longrightarrow> rest = r'"
      using h s0 sb q s1 c pv s2 by (auto split: if_splits)
    ultimately show ?thesis using l0 l1 l2 l3 l4 by (cases "c' = 0x2C") auto
  qed
  from v e m show ?case by blast
qed

lemma value_consumes: "parse_value n s = Inr (v, rest) \<Longrightarrow> length rest < length s"
  using parser_consumes by blast

lemma parser_fuel:
  "(\<forall>s m. 2 * length s < n \<and> n \<le> m \<longrightarrow> parse_value m s = parse_value n s)
   \<and> (\<forall>s acc m. 2 * length s + 1 < n \<and> n \<le> m \<longrightarrow> parse_elems m s acc = parse_elems n s acc)
   \<and> (\<forall>s acc m. 2 * length s + 1 < n \<and> n \<le> m
          \<longrightarrow> parse_members m s acc = parse_members n s acc)"
proof (induction n)
  case 0
  then show ?case by simp
next
  case (Suc n)
  have V: "parse_value m s = parse_value n s" if "2 * length s < n" "n \<le> m" for s m
    using Suc.IH that by blast
  have E: "parse_elems m s acc = parse_elems n s acc" if "2 * length s + 1 < n" "n \<le> m" for s acc m
    using Suc.IH that by blast
  have M: "parse_members m s acc = parse_members n s acc" if "2 * length s + 1 < n" "n \<le> m" for s acc m
    using Suc.IH that by blast
  have v: "parse_value m s = parse_value (Suc n) s" if b: "2 * length s < Suc n" and le: "Suc n \<le> m" for s m
  proof -
    from le obtain m' where m: "m = Suc m'" and le': "n \<le> m'" by (cases m) auto
    have E': "parse_elems m' r acc = parse_elems n r acc" if "skip_ws s = c # r" for c r acc
      using skip_ws_Cons_length[OF that] b le' by (intro E) auto
    have M': "parse_members m' r acc = parse_members n r acc" if "skip_ws s = c # r" for c r acc
      using skip_ws_Cons_length[OF that] b le' by (intro M) auto
    show ?thesis
    proof (cases "skip_ws s")
      case Nil
      then show ?thesis unfolding m by simp
    next
      case (Cons c r)
      then show ?thesis unfolding m by (simp add: E'[OF Cons] M'[OF Cons] split: list.splits)
    qed
  qed
  have e: "parse_elems m s acc = parse_elems (Suc n) s acc"
    if b: "2 * length s + 1 < Suc n" and le: "Suc n \<le> m" for s acc m
  proof -
    from le obtain m' where m: "m = Suc m'" and le': "n \<le> m'" by (cases m) auto
    have pv: "parse_value m' s = parse_value n s" using b le' by (intro V) auto
    have E': "parse_elems m' r a = parse_elems n r a"
      if "parse_value n s = Inr (x, rest1)" "skip_ws rest1 = c # r" for x rest1 c r a
      using value_consumes[OF that(1)] skip_ws_Cons_length[OF that(2)] b le' by (intro E) auto
    show ?thesis
      unfolding m
      by (auto simp: pv E' split: sum.splits list.splits)
  qed
  have mm: "parse_members m s acc = parse_members (Suc n) s acc"
    if b: "2 * length s + 1 < Suc n" and le: "Suc n \<le> m" for s acc m
  proof -
    from le obtain m' where m: "m = Suc m'" and le': "n \<le> m'" by (cases m) auto
    have V': "parse_value m' r = parse_value n r"
      if "skip_ws s = q # r0" "parse_string_body r0 = Some (k, rest1)" "skip_ws rest1 = c # r"
      for q r0 k rest1 c r
      using skip_ws_Cons_length[OF that(1)] parse_string_body_consumes[OF that(2)]
        skip_ws_Cons_length[OF that(3)] b le' by (intro V) auto
    have M': "parse_members m' r' a = parse_members n r' a"
      if "skip_ws s = q # r0" "parse_string_body r0 = Some (k, rest1)" "skip_ws rest1 = c # r"
        "parse_value n r = Inr (x, rest2)" "skip_ws rest2 = c' # r'"
      for q r0 k rest1 c r x rest2 c' r' a
      using skip_ws_Cons_length[OF that(1)] parse_string_body_consumes[OF that(2)]
        skip_ws_Cons_length[OF that(3)] value_consumes[OF that(4)]
        skip_ws_Cons_length[OF that(5)] b le' by (intro M) auto
    show ?thesis
      unfolding m
      by (auto simp: V' M' split: sum.splits list.splits option.splits)
  qed
  from v e mm show ?case by blast
qed

lemma JSON_parse_fuel:
  assumes "Suc (2 * length s) \<le> m"
  shows "parse_value m s = parse_value (Suc (2 * length s)) s"
  using parser_fuel[of "Suc (2 * length s)"] assms by simp


section \<open>Platform encodings: btoa, atob, TextDecoder, TextEncoder\<close>

text \<open>
  \<open>btoa\<close> and \<open>atob\<close> follow the HTML standard (forgiving base64 decoding: ASCII
  white space is dropped, padding is optional, a length of 1 modulo 4 and any character
  outside the alphabet fail). \<open>TextDecoder_decode\<close> is the UTF-8 decoder of the Encoding
  standard with replacement characters and a skipped byte order mark,
  \<open>TextEncoder_encode\<close> its encoder, where a lone surrogate becomes U+FFFD.
\<close>

definition b64_char :: "int \<Rightarrow> cu" where
  "b64_char n =
     (if n < 26 then of_int (0x41 + n)
      else if n < 52 then of_int (0x61 + (n - 26))
      else if n < 62 then of_int (0x30 + (n - 52))
      else if n = 62 then 0x2B
      else 0x2F)"

definition b64_value :: "cu \<Rightarrow> int option" where
  "b64_value c =
     (if 0x41 \<le> c \<and> c \<le> 0x5A then Some (uint c - 0x41)
      else if 0x61 \<le> c \<and> c \<le> 0x7A then Some (uint c - 0x61 + 26)
      else if 0x30 \<le> c \<and> c \<le> 0x39 then Some (uint c - 0x30 + 52)
      else if c = 0x2B then Some 62
      else if c = 0x2F then Some 63
      else None)"

fun b64_encode :: "int list \<Rightarrow> jsstring" where
  "b64_encode [] = []"
| "b64_encode [a] = [b64_char (a div 4), b64_char ((a mod 4) * 16), 0x3D, 0x3D]"
| "b64_encode [a, b] =
     [b64_char (a div 4), b64_char ((a mod 4) * 16 + b div 16), b64_char ((b mod 16) * 4), 0x3D]"
| "b64_encode (a # b # c # rest) =
     [b64_char (a div 4), b64_char ((a mod 4) * 16 + b div 16),
      b64_char ((b mod 16) * 4 + c div 64), b64_char (c mod 64)] @ b64_encode rest"

definition btoa :: "jsstring \<Rightarrow> error + jsstring" where
  "btoa s = (if \<exists>c \<in> set s. 0xFF < c then Inl InvalidCharacterError
             else Inr (b64_encode (map uint s)))"

fun b64_decode :: "int list \<Rightarrow> int list" where
  "b64_decode (w # x # y # z # rest) =
     [w * 4 + x div 16, (x mod 16) * 16 + y div 4, (y mod 4) * 64 + z] @ b64_decode rest"
| "b64_decode [w, x, y] = [w * 4 + x div 16, (x mod 16) * 16 + y div 4]"
| "b64_decode [w, x] = [w * 4 + x div 16]"
| "b64_decode _ = []"

definition is_ascii_ws :: "cu \<Rightarrow> bool" where
  "is_ascii_ws c = (c = 0x09 \<or> c = 0x0A \<or> c = 0x0C \<or> c = 0x0D \<or> c = 0x20)"

definition strip_padding :: "jsstring \<Rightarrow> jsstring" where
  "strip_padding d =
     (if length d mod 4 = 0 \<and> d \<noteq> [] \<and> last d = 0x3D then
        (let d1 = butlast d in if d1 \<noteq> [] \<and> last d1 = 0x3D then butlast d1 else d1)
      else d)"

fun those_values :: "jsstring \<Rightarrow> int list option" where
  "those_values [] = Some []"
| "those_values (c # cs) =
     (case b64_value c of
        None \<Rightarrow> None
      | Some v \<Rightarrow> (case those_values cs of None \<Rightarrow> None | Some vs \<Rightarrow> Some (v # vs)))"

definition atob :: "jsstring \<Rightarrow> error + jsstring" where
  "atob s =
     (let d = strip_padding (filter (\<lambda>c. \<not> is_ascii_ws c) s)
      in if length d mod 4 = 1 then Inl InvalidCharacterError
         else (case those_values d of
                 None \<Rightarrow> Inl InvalidCharacterError
               | Some vs \<Rightarrow> Inr (map of_int (b64_decode vs))))"

type_synonym utf8_state = "int \<times> int \<times> int \<times> int"

definition utf8_initial :: utf8_state where
  "utf8_initial = (0, 0, 0x80, 0xBF)"

definition utf8_start :: "int \<Rightarrow> int list \<times> utf8_state" where
  "utf8_start x =
     (if x \<le> 0x7F then ([x], utf8_initial)
      else if 0xC2 \<le> x \<and> x \<le> 0xDF then ([], (x mod 32, 1, 0x80, 0xBF))
      else if 0xE0 \<le> x \<and> x \<le> 0xEF then
        ([], (x mod 16, 2, if x = 0xE0 then 0xA0 else 0x80, if x = 0xED then 0x9F else 0xBF))
      else if 0xF0 \<le> x \<and> x \<le> 0xF4 then
        ([], (x mod 8, 3, if x = 0xF0 then 0x90 else 0x80, if x = 0xF4 then 0x8F else 0xBF))
      else ([0xFFFD], utf8_initial))"

definition utf8_step :: "utf8_state \<Rightarrow> int \<Rightarrow> int list \<times> utf8_state" where
  "utf8_step st x =
     (case st of (cp, needed, lo, hi) \<Rightarrow>
        if needed = 0 then utf8_start x
        else if x < lo \<or> hi < x then
          (case utf8_start x of (out, st') \<Rightarrow> (0xFFFD # out, st'))
        else if needed = 1 then ([cp * 64 + x mod 64], utf8_initial)
        else ([], (cp * 64 + x mod 64, needed - 1, 0x80, 0xBF)))"

fun utf8_decode_from :: "utf8_state \<Rightarrow> byte list \<Rightarrow> int list" where
  "utf8_decode_from st [] = (if fst (snd st) = 0 then [] else [0xFFFD])"
| "utf8_decode_from st (b # bs) =
     (case utf8_step st (uint b) of (out, st') \<Rightarrow> out @ utf8_decode_from st' bs)"

definition utf16_units :: "int \<Rightarrow> jsstring" where
  "utf16_units cp =
     (if cp < 0x10000 then [of_int cp]
      else [of_int (0xD800 + (cp - 0x10000) div 1024), of_int (0xDC00 + (cp - 0x10000) mod 1024)])"

definition utf8_decode :: "byte list \<Rightarrow> jsstring" where
  "utf8_decode bs = concat (map utf16_units (utf8_decode_from utf8_initial bs))"

definition TextDecoder_decode :: "byte list \<Rightarrow> jsstring" where
  "TextDecoder_decode bs =
     utf8_decode (if take 3 bs = [0xEF, 0xBB, 0xBF] then drop 3 bs else bs)"

fun code_points :: "jsstring \<Rightarrow> int list" where
  "code_points [] = []"
| "code_points [c] = [if is_high_surrogate c \<or> is_low_surrogate c then 0xFFFD else uint c]"
| "code_points (c # d # cs) =
     (if is_high_surrogate c then
        (if is_low_surrogate d
         then (0x10000 + (uint c - 0xD800) * 1024 + (uint d - 0xDC00)) # code_points cs
         else 0xFFFD # code_points (d # cs))
      else if is_low_surrogate c then 0xFFFD # code_points (d # cs)
      else uint c # code_points (d # cs))"

definition utf8_bytes :: "int \<Rightarrow> byte list" where
  "utf8_bytes cp =
     (if cp < 0x80 then [of_int cp]
      else if cp < 0x800 then [of_int (0xC0 + cp div 64), of_int (0x80 + cp mod 64)]
      else if cp < 0x10000 then
        [of_int (0xE0 + cp div 4096), of_int (0x80 + (cp div 64) mod 64), of_int (0x80 + cp mod 64)]
      else
        [of_int (0xF0 + cp div 262144), of_int (0x80 + (cp div 4096) mod 64),
         of_int (0x80 + (cp div 64) mod 64), of_int (0x80 + cp mod 64)])"

definition TextEncoder_encode :: "jsstring \<Rightarrow> byte list" where
  "TextEncoder_encode s = concat (map utf8_bytes (code_points s))"



section \<open>The platform: network, WebCrypto, YAML, coercions\<close>

text \<open>
  What the worker calls and does not define is a parameter: \<^verbatim>\<open>fetch\<close>, the operations
  of \<^verbatim>\<open>crypto.subtle\<close> on opaque key handles of type \<open>'k\<close>, the YAML parser, the
  coercions of \<^verbatim>\<open><\<close> and \<^verbatim>\<open>==\<close> on operands of mixed type, and the text of
  engine errors. \<open>p_generateKey n\<close> is the outcome of the \<open>n\<close>-th key generation;
  \<open>p_fetch\<close> is a function of the request (the remote ends do not change during one
  invocation).

  The world is the KV namespace \<^verbatim>\<open>env.CONFIG\<close> (a map from keys to stored texts that
  returns what was last put, and whose \<^verbatim>\<open>put\<close> does not fail), the clock, the number
  of key generations so far and a trace of the store's reads and writes.
  \<open>CONFIG_get_json\<close> is \<^verbatim>\<open>env.CONFIG.get(key, 'json')\<close>: \<^verbatim>\<open>null\<close> for a missing key,
  otherwise the parsed text.
\<close>

datatype key_usage = UseSign | UseVerify

record fetch_request =
  fr_url :: jsstring
  fr_method :: jsstring
  fr_headers :: "(jsstring \<times> jsstring) list"
  fr_body :: "byte list option"

record response =
  resp_status :: nat
  resp_body :: jsstring

record 'k platform =
  p_fetch :: "fetch_request \<Rightarrow> error + response"
  p_generateKey :: "nat \<Rightarrow> error + ('k \<times> 'k)"
  p_exportKey :: "'k \<Rightarrow> error + json"
  p_importKey :: "json option \<Rightarrow> key_usage \<Rightarrow> error + 'k"
  p_sign :: "'k \<Rightarrow> byte list \<Rightarrow> error + byte list"
  p_verify :: "'k \<Rightarrow> byte list \<Rightarrow> byte list \<Rightarrow> error + bool"
  p_digest :: "byte list \<Rightarrow> error + byte list"
  p_yaml_parse :: "jsstring \<Rightarrow> error + json"
  p_coerce_lt :: "json \<Rightarrow> int \<Rightarrow> bool"
  p_coerce_eq :: "json option \<Rightarrow> json option \<Rightarrow> bool"
  p_error_text :: "error \<Rightarrow> jsstring"

datatype event = KVGet jsstring | KVPut jsstring jsstring | KeyGenerated

record world =
  kv :: "jsstring \<rightharpoonup> jsstring"
  trace :: "event list"
  keygens :: nat
  time_ms :: int

record env =
  KEY_PREFIX :: jsstring

definition CONFIG_get_json :: "world \<Rightarrow> jsstring \<Rightarrow> (error + json) \<times> world" where
  "CONFIG_get_json w k =
     ((case kv w k of None \<Rightarrow> Inr JNull | Some t \<Rightarrow> JSON_parse t),
      w\<lparr>trace := trace w @ [KVGet k]\<rparr>)"

definition CONFIG_put :: "world \<Rightarrow> jsstring \<Rightarrow> jsstring \<Rightarrow> world" where
  "CONFIG_put w k v = w\<lparr>kv := (kv w)(k \<mapsto> v), trace := trace w @ [KVPut k v]\<rparr>"

definition nullish :: "json option \<Rightarrow> bool" where
  "nullish v = (v = None \<or> v = Some JNull)"

fun is_object :: "json \<Rightarrow> bool" where
  "is_object (JArr xs) = True"
| "is_object (JObj ms) = True"
| "is_object v = False"

definition loose_eq :: "'k platform \<Rightarrow> json option \<Rightarrow> json option \<Rightarrow> bool" where
  "loose_eq p a b =
     (if nullish a \<or> nullish b then nullish a \<and> nullish b
      else (case (a, b) of
              (Some (JStr x), Some (JStr y)) \<Rightarrow> x = y
            | (Some (JNum x), Some (JNum y)) \<Rightarrow> x = y
            | (Some (JBool x), Some (JBool y)) \<Rightarrow> x = y
            | (Some x, Some y) \<Rightarrow> if is_object x \<and> is_object y then False else p_coerce_eq p a b
            | _ \<Rightarrow> False))"

definition js_lt :: "'k platform \<Rightarrow> json option \<Rightarrow> int \<Rightarrow> bool" where
  "js_lt p v n =
     (case v of
        None \<Rightarrow> False
      | Some JNull \<Rightarrow> 0 < n
      | Some (JBool b) \<Rightarrow> (if b then 1 else 0) < n
      | Some (JNum x) \<Rightarrow> x < n
      | Some u \<Rightarrow> p_coerce_lt p u n)"

section \<open>jwt.ts\<close>

text \<open>
  Each definition carries the name of the function of \<^verbatim>\<open>jwt.ts\<close> it embeds. A function
  that touches the store takes the world and returns its result, an error or a value,
  together with the world it leaves.
\<close>

definition getSigningKey :: "env \<Rightarrow> jsstring" where
  "getSigningKey e = KEY_PREFIX e @ js ''_keys''"

definition is_js_space :: "cu \<Rightarrow> bool" where
  "is_js_space c =
     ((0x09 \<le> c \<and> c \<le> 0x0D) \<or> c = 0x20 \<or> c = 0xA0 \<or> c = 0x1680
      \<or> (0x2000 \<le> c \<and> c \<le> 0x200A) \<or> c = 0x2028 \<or> c = 0x2029 \<or> c = 0x202F
      \<or> c = 0x205F \<or> c = 0x3000 \<or> c = 0xFEFF)"

definition replace_char :: "cu \<Rightarrow> cu \<Rightarrow> jsstring \<Rightarrow> jsstring" where
  "replace_char a b s = map (\<lambda>c. if c = a then b else c) s"

definition String_fromCharCode :: "byte list \<Rightarrow> jsstring" where
  "String_fromCharCode a = map ucast a"

definition base64url_stringify :: "byte list \<Rightarrow> error + jsstring" where
  "base64url_stringify a =
     (case btoa (String_fromCharCode a) of
        Inl e \<Rightarrow> Inl e
      | Inr base64string \<Rightarrow>
          Inr (replace_char 0x2F 0x5F (replace_char 0x2B 0x2D (filter (\<lambda>c. c \<noteq> 0x3D) base64string))))"

definition base64url_parse :: "jsstring \<Rightarrow> error + byte list" where
  "base64url_parse s =
     (case atob (filter (\<lambda>c. \<not> is_js_space c) (replace_char 0x5F 0x2F (replace_char 0x2D 0x2B s))) of
        Inl e \<Rightarrow> Inl e
      | Inr bin \<Rightarrow> Inr (map ucast bin))"

definition asciiToUint8Array :: "jsstring \<Rightarrow> byte list" where
  "asciiToUint8Array str = map ucast str"

definition certs_url :: jsstring where
  "certs_url = js ''https://access-testing.cloudflareaccess.com/cdn-cgi/access/certs''"

definition simple_get :: "jsstring \<Rightarrow> fetch_request" where
  "simple_get u = \<lparr>fr_url = u, fr_method = js ''GET'', fr_headers = [], fr_body = None\<rparr>"

definition keys_of :: "json \<Rightarrow> error + json list" where
  "keys_of body =
     (case body of
        JObj ms \<Rightarrow> (case map_of ms (js ''keys'') of Some (JArr ks) \<Rightarrow> Inr ks | _ \<Rightarrow> Inl TypeError)
      | _ \<Rightarrow> Inl TypeError)"

fun filter_kid :: "'k platform \<Rightarrow> json option \<Rightarrow> json list \<Rightarrow> error + json list" where
  "filter_kid p kid [] = Inr []"
| "filter_kid p kid (key # ks) =
     (case get_prop key (js ''kid'') of
        Inl e \<Rightarrow> Inl e
      | Inr k \<Rightarrow>
          (case filter_kid p kid ks of
             Inl e \<Rightarrow> Inl e
           | Inr r \<Rightarrow> Inr (if loose_eq p k kid then key # r else r)))"

definition fetchAccessPublicKey :: "'k platform \<Rightarrow> json option \<Rightarrow> error + 'k" where
  "fetchAccessPublicKey p kid =
     (case p_fetch p (simple_get certs_url) of
        Inl e \<Rightarrow> Inl e
      | Inr resp \<Rightarrow>
          (case JSON_parse (resp_body resp) of
             Inl e \<Rightarrow> Inl e
           | Inr keys \<Rightarrow>
               (case keys_of keys of
                  Inl e \<Rightarrow> Inl e
                | Inr ks \<Rightarrow>
                    (case filter_kid p kid ks of
                       Inl e \<Rightarrow> Inl e
                     | Inr matching \<Rightarrow>
                         p_importKey p (case matching of [] \<Rightarrow> None | jwk # _ \<Rightarrow> Some jwk) UseVerify))))"

record jwt =
  to_be_validated :: jsstring
  header :: json
  payload :: json
  signature :: jsstring

definition decode_segment :: "jsstring \<Rightarrow> error + json" where
  "decode_segment seg =
     (case base64url_parse seg of
        Inl e \<Rightarrow> Inl e
      | Inr bytes \<Rightarrow> JSON_parse (TextDecoder_decode bytes))"

definition parseJWT :: "jsstring \<Rightarrow> error + jwt" where
  "parseJWT token =
     (case js_split 0x2E token of
        [p0, p1, p2] \<Rightarrow>
          (case decode_segment p0 of
             Inl e \<Rightarrow> Inl e
           | Inr h \<Rightarrow>
               (case decode_segment p1 of
                  Inl e \<Rightarrow> Inl e
                | Inr pl \<Rightarrow>
                    Inr \<lparr>to_be_validated = p0 @ [0x2E] @ p1, header = h, payload = pl,
                         signature = p2\<rparr>))
      | _ \<Rightarrow> Inl (Error (js ''token must have 3 parts'')))"

definition verifyToken :: "'k platform \<Rightarrow> world \<Rightarrow> jsstring \<Rightarrow> error + json" where
  "verifyToken p w token =
     (case parseJWT token of
        Inl e \<Rightarrow> Inl e
      | Inr t \<Rightarrow>
          (case get_prop (header t) (js ''kid'') of
             Inl e \<Rightarrow> Inl e
           | Inr kid \<Rightarrow>
               (case fetchAccessPublicKey p kid of
                  Inl e \<Rightarrow> Inl e
                | Inr key \<Rightarrow>
                    (case base64url_parse (signature t) of
                       Inl e \<Rightarrow> Inl e
                     | Inr sig \<Rightarrow>
                         (case p_verify p key sig (asciiToUint8Array (to_be_validated t)) of
                            Inl e \<Rightarrow> Inl e
                          | Inr verified \<Rightarrow>
                              if \<not> verified then Inl (Error (js ''failed to verify token''))
                              else
                                (case get_prop (payload t) (js ''exp'') of
                                   Inl e \<Rightarrow> Inl e
                                 | Inr exp \<Rightarrow>
                                     if js_lt p exp (time_ms w div 1000)
                                     then Inl (Error (js ''expired token''))
                                     else Inr (payload t)))))))"


definition hex2 :: "byte \<Rightarrow> jsstring" where
  "hex2 b = [hexdigit (uint b div 16), hexdigit (uint b mod 16)]"

definition generateKID :: "'k platform \<Rightarrow> jsstring \<Rightarrow> error + jsstring" where
  "generateKID p publicKey =
     (case p_digest p (TextEncoder_encode publicKey) of
        Inl e \<Rightarrow> Inl e
      | Inr hashArray \<Rightarrow> Inr (take 64 (concat (map hex2 hashArray))))"

record 'k generated =
  keypair :: "'k \<times> 'k"
  publicKey :: json
  privateKey :: json
  kid :: jsstring

definition keyset_record :: "json \<Rightarrow> json \<Rightarrow> jsstring \<Rightarrow> json" where
  "keyset_record pub priv k =
     JObj [(js ''public'', pub), (js ''private'', priv), (js ''kid'', JStr k)]"

definition generateKeys_try :: "'k platform \<Rightarrow> env \<Rightarrow> world \<Rightarrow> (error + 'k generated) \<times> world" where
  "generateKeys_try p e w =
     (let w1 = w\<lparr>keygens := Suc (keygens w), trace := trace w @ [KeyGenerated]\<rparr>
      in case p_generateKey p (keygens w) of
           Inl err \<Rightarrow> (Inl err, w1)
         | Inr kp \<Rightarrow>
             (case p_exportKey p (fst kp) of
                Inl err \<Rightarrow> (Inl err, w1)
              | Inr pub \<Rightarrow>
                  (case p_exportKey p (snd kp) of
                     Inl err \<Rightarrow> (Inl err, w1)
                   | Inr priv \<Rightarrow>
                       (case generateKID p (JSON_stringify pub) of
                          Inl err \<Rightarrow> (Inl err, w1)
                        | Inr k \<Rightarrow>
                            (Inr \<lparr>keypair = kp, publicKey = pub, privateKey = priv, kid = k\<rparr>,
                             CONFIG_put w1 (getSigningKey e)
                               (JSON_stringify (keyset_record pub priv k)))))))"

definition generateKeys :: "'k platform \<Rightarrow> env \<Rightarrow> world \<Rightarrow> (error + 'k generated) \<times> world" where
  "generateKeys p e w =
     (case generateKeys_try p e w of
        (Inl err, w') \<Rightarrow> (Inl (ThrownString (js ''failed to generate keyset'')), w')
      | (Inr g, w') \<Rightarrow> (Inr g, w'))"

type_synonym props = "(jsstring \<times> json option) list"

definition index_props :: "json list \<Rightarrow> props" where
  "index_props xs = map (\<lambda>(i, x). (number_toString (int i), Some x)) (enumerate 0 xs)"

definition own_enumerable :: "json option \<Rightarrow> props" where
  "own_enumerable v =
     (case v of
        Some (JObj ms) \<Rightarrow> map (\<lambda>(k, x). (k, Some x)) ms
      | Some (JArr xs) \<Rightarrow> index_props xs
      | Some (JStr s) \<Rightarrow> index_props (map (\<lambda>c. JStr [c]) s)
      | _ \<Rightarrow> [])"

definition spread :: "props \<Rightarrow> json option \<Rightarrow> props" where
  "spread ps v = foldl (\<lambda>acc (k, x). obj_set acc k x) ps (own_enumerable v)"

definition loadPublicKey :: "'k platform \<Rightarrow> env \<Rightarrow> world \<Rightarrow> (error + props) \<times> world" where
  "loadPublicKey p e w =
     (case CONFIG_get_json w (getSigningKey e) of
        (Inl err, w1) \<Rightarrow> (Inl err, w1)
      | (Inr key, w1) \<Rightarrow>
          if truthy key then
            (case get_prop key (js ''kid'') of
               Inl err \<Rightarrow> (Inl err, w1)
             | Inr k \<Rightarrow>
                 (case get_prop key (js ''public'') of
                    Inl err \<Rightarrow> (Inl err, w1)
                  | Inr pub \<Rightarrow> (Inr (spread [(js ''kid'', k)] pub), w1)))
          else
            (case generateKeys p e w1 of
               (Inl err, w2) \<Rightarrow> (Inl err, w2)
             | (Inr g, w2) \<Rightarrow>
                 (Inr (spread [(js ''kid'', Some (JStr (kid g)))] (Some (publicKey g))), w2)))"


definition reads_usable :: "world \<Rightarrow> jsstring \<Rightarrow> bool" where
  "reads_usable w k = (case fst (CONFIG_get_json w k) of Inl err \<Rightarrow> True | Inr v \<Rightarrow> truthy v)"

lemma parse_members_object:
  "parse_members n s acc = Inr (v, r) \<Longrightarrow> \<exists>ms. v = JObj ms"
proof (induction n arbitrary: s acc)
  case 0
  then show ?case by simp
next
  case (Suc n)
  from Suc.prems show ?case
    by (auto split: list.splits if_splits option.splits sum.splits prod.splits
             dest: Suc.IH)
qed

lemma skip_ws_brace: "skip_ws (0x7B # r) = 0x7B # r"
  by (simp add: skip_ws_def is_json_ws_def)

lemma parse_value_brace:
  assumes "parse_value n (0x7B # r) = Inr (v, rest)"
  shows "\<exists>ms. v = JObj ms"
proof (cases n)
  case 0
  with assms show ?thesis by simp
next
  case (Suc m)
  with assms show ?thesis
    by (auto simp: skip_ws_brace split: list.splits if_splits dest: parse_members_object)
qed

lemma JSON_parse_object_text:
  assumes "JSON_parse (0x7B # r) = Inr v"
  shows "\<exists>ms. v = JObj ms"
proof -
  from assms obtain n rest where "parse_value n (0x7B # r) = Inr (v, rest)"
    unfolding JSON_parse_def
    by (auto simp del: parse_value.simps split: sum.splits prod.splits if_splits)
  then show ?thesis by (rule parse_value_brace)
qed

lemma JSON_stringify_object_text: "\<exists>r. JSON_stringify (JObj ms) = 0x7B # r"
  by simp

lemma stored_keyset_usable:
  "reads_usable (CONFIG_put w k (JSON_stringify (keyset_record pub priv i))) k"
proof -
  obtain r where r: "JSON_stringify (keyset_record pub priv i) = 0x7B # r"
    unfolding keyset_record_def using JSON_stringify_object_text by blast
  show ?thesis
  proof (cases "JSON_parse (0x7B # r)")
    case (Inl a)
    then show ?thesis by (simp add: reads_usable_def CONFIG_get_json_def CONFIG_put_def r)
  next
    case (Inr v)
    then obtain ms where "v = JObj ms" using JSON_parse_object_text by blast
    with Inr show ?thesis by (simp add: reads_usable_def CONFIG_get_json_def CONFIG_put_def r)
  qed
qed

lemma generateKeys_usable:
  assumes "generateKeys p e w = (Inr g, w')"
  shows "reads_usable w' (getSigningKey e)"
  using assms stored_keyset_usable
  by (auto simp: generateKeys_def generateKeys_try_def Let_def
           split: sum.splits prod.splits)

lemma loadPublicKey_usable:
  assumes "CONFIG_get_json w k = (Inr keyset, w1)" and "\<not> truthy keyset"
    and "k = getSigningKey e" and "loadPublicKey p e w1 = (Inr x, w2)"
  shows "reads_usable w2 (getSigningKey e)"
proof -
  have same: "fst (CONFIG_get_json w1 k) = Inr keyset"
    using assms(1) by (auto simp: CONFIG_get_json_def)
  then obtain w1' where g: "CONFIG_get_json w1 k = (Inr keyset, w1')"
    by (cases "CONFIG_get_json w1 k") auto
  from assms(4) g assms(2,3) obtain gen where "generateKeys p e w1' = (Inr gen, w2)"
    by (auto simp: loadPublicKey_def split: sum.splits prod.splits if_splits)
  then show ?thesis by (rule generateKeys_usable)
qed

function loadSigningKey ::
  "'k platform \<Rightarrow> env \<Rightarrow> world \<Rightarrow> (error + (json option \<times> 'k)) \<times> world" where
  "loadSigningKey p e w =
     (case CONFIG_get_json w (getSigningKey e) of
        (Inl err, w1) \<Rightarrow> (Inl err, w1)
      | (Inr keyset, w1) \<Rightarrow>
          if truthy keyset then
            (case get_prop keyset (js ''private'') of
               Inl err \<Rightarrow> (Inl err, w1)
             | Inr priv \<Rightarrow>
                 (case p_importKey p priv UseSign of
                    Inl err \<Rightarrow> (Inl err, w1)
                  | Inr signingKey \<Rightarrow>
                      (case get_prop keyset (js ''kid'') of
                         Inl err \<Rightarrow> (Inl err, w1)
                       | Inr k \<Rightarrow> (Inr (k, signingKey), w1))))
          else
            (case loadPublicKey p e w1 of
               (Inl err, w2) \<Rightarrow> (Inl err, w2)
             | (Inr pk, w2) \<Rightarrow> loadSigningKey p e w2))"
  by pat_completeness auto
termination
proof (relation "measure (\<lambda>(p, e, w). if reads_usable w (getSigningKey e) then 0 else 1)")
  show "wf (measure (\<lambda>(p, e, w). if reads_usable w (getSigningKey e) then 0 else (1::nat)))"
    by simp
next
  fix p :: "'k platform" and e w x1 w1 keyset x2 pk w2
  assume a: "(x1, w1) = CONFIG_get_json w (getSigningKey e)" "x1 = Inr keyset"
    "\<not> truthy keyset" "(x2, w2) = loadPublicKey p e w1" "x2 = Inr pk"
  have "\<not> reads_usable w (getSigningKey e)"
    using a(1,2,3) by (cases "CONFIG_get_json w (getSigningKey e)") (auto simp: reads_usable_def)
  moreover have "reads_usable w2 (getSigningKey e)"
    using loadPublicKey_usable[of w "getSigningKey e" keyset w1 e p pk w2] a by simp
  ultimately show "((p, e, w2), (p, e, w)) \<in>
      measure (\<lambda>(p, e, w). if reads_usable w (getSigningKey e) then 0 else 1)"
    by simp
qed

declare loadSigningKey.simps [simp del]


definition signJWT :: "'k platform \<Rightarrow> env \<Rightarrow> world \<Rightarrow> json \<Rightarrow> (error + jsstring) \<times> world" where
  "signJWT p e w pl =
     (case loadSigningKey p e w of
        (Inl err, w1) \<Rightarrow> (Inl err, w1)
      | (Inr (k, signingKey), w1) \<Rightarrow>
          (let hdr = JObj ((js ''alg'', JStr (js ''RS256''))
                           # (case k of None \<Rightarrow> [] | Some kidv \<Rightarrow> [(js ''kid'', kidv)]))
           in case base64url_stringify (asciiToUint8Array (JSON_stringify hdr)) of
                Inl err \<Rightarrow> (Inl err, w1)
              | Inr encHeader \<Rightarrow>
                  (case base64url_stringify (asciiToUint8Array (JSON_stringify pl)) of
                     Inl err \<Rightarrow> (Inl err, w1)
                   | Inr encPayload \<Rightarrow>
                       (let encoded = encHeader @ [0x2E] @ encPayload
                        in case p_sign p signingKey (asciiToUint8Array encoded) of
                             Inl err \<Rightarrow> (Inl err, w1)
                           | Inr sig \<Rightarrow>
                               (case base64url_stringify sig of
                                  Inl err \<Rightarrow> (Inl err, w1)
                                | Inr encSig \<Rightarrow> (Inr (encoded @ [0x2E] @ encSig), w1))))))"

section \<open>index.ts\<close>

text \<open>
  Of a request the worker reads the method, \<^verbatim>\<open>c.req.path\<close>, the query of
  \<^verbatim>\<open>c.req.url\<close> (\<open>req_query\<close>, without the question mark), the cookie
  \<^verbatim>\<open>CF_Authorization\<close> as \<^verbatim>\<open>getCookie\<close> returns it, the own enumerable properties that the
  object spread of \<^verbatim>\<open>c.req.raw.headers\<close> copies, and the body. The routing table has the
  declared type \<^verbatim>\<open>HostsConfig\<close>; \<open>as_HostsConfig\<close> reads a JSON value at that type.
  \<open>config_lookup\<close> is \<^verbatim>\<open>config[workloadName]\<close>, which also finds the properties every
  object inherits.
\<close>

record request =
  req_method :: jsstring
  req_path :: jsstring
  req_query :: jsstring
  req_cookie :: "jsstring option"
  req_headers :: "(jsstring \<times> jsstring) list"
  req_body :: "byte list"

record Workload =
  provider :: jsstring
  host :: jsstring
  wtype :: jsstring

type_synonym HostsConfig = "(jsstring \<times> Workload) list"

definition getConfigKey :: "env \<Rightarrow> jsstring" where
  "getConfigKey e = KEY_PREFIX e @ js ''_workload_config''"

definition as_Workload :: "json \<Rightarrow> Workload option" where
  "as_Workload v =
     (case v of
        JObj ms \<Rightarrow>
          (case (map_of ms (js ''provider''), map_of ms (js ''host''), map_of ms (js ''type'')) of
             (Some (JStr pr), Some (JStr h), Some (JStr t)) \<Rightarrow>
               Some \<lparr>provider = pr, host = h, wtype = t\<rparr>
           | _ \<Rightarrow> None)
      | _ \<Rightarrow> None)"

fun as_entries :: "(jsstring \<times> json) list \<Rightarrow> HostsConfig option" where
  "as_entries [] = Some []"
| "as_entries ((name, v) # ms) =
     (case as_Workload v of
        None \<Rightarrow> None
      | Some wl \<Rightarrow> (case as_entries ms of None \<Rightarrow> None | Some r \<Rightarrow> Some ((name, wl) # r)))"

definition as_HostsConfig :: "json \<Rightarrow> HostsConfig option" where
  "as_HostsConfig v =
     (case v of
        JObj ms \<Rightarrow> as_entries ms
      | JArr xs \<Rightarrow> None
      | _ \<Rightarrow> Some [])"

definition Object_prototype_props :: "jsstring list" where
  "Object_prototype_props =
     [js ''constructor'', js ''__defineGetter__'', js ''__defineSetter__'', js ''hasOwnProperty'',
      js ''__lookupGetter__'', js ''__lookupSetter__'', js ''isPrototypeOf'',
      js ''propertyIsEnumerable'', js ''toString'', js ''valueOf'', js ''__proto__'',
      js ''toLocaleString'']"

datatype provider_fn = ProviderExample | ProviderInherited

definition Providers :: "jsstring \<Rightarrow> provider_fn option" where
  "Providers name =
     (if name = js ''example'' then Some ProviderExample
      else if name \<in> set Object_prototype_props then Some ProviderInherited
      else None)"

datatype lookup = Own Workload | Inherited | Absent

definition config_lookup :: "HostsConfig \<Rightarrow> jsstring \<Rightarrow> lookup" where
  "config_lookup config name =
     (case map_of config name of
        Some wl \<Rightarrow> Own wl
      | None \<Rightarrow> if name \<in> set Object_prototype_props then Inherited else Absent)"

definition config_url :: jsstring where
  "config_url = js ''https://raw.githubusercontent.com/co-cddo/zerotrust-cloud-identity/refs/heads/main/shared_config/hosts.yaml''"

definition refreshConfig :: "'k platform \<Rightarrow> env \<Rightarrow> world \<Rightarrow> (error + json) \<times> world" where
  "refreshConfig p e w =
     (case p_fetch p (simple_get config_url) of
        Inl err \<Rightarrow> (Inl err, w)
      | Inr resp \<Rightarrow>
          if resp_status resp \<noteq> 200
          then (Inl (HTTPException 500 (js ''failed to get config from github'')), w)
          else
            (case p_yaml_parse p (resp_body resp) of
               Inl err \<Rightarrow> (Inl err, w)
             | Inr jsonData \<Rightarrow>
                 (Inr jsonData, CONFIG_put w (getConfigKey e) (JSON_stringify jsonData))))"

subsection \<open>URLSearchParams\<close>

text \<open>
  \<^verbatim>\<open>u.searchParams.toString()\<close>: the query is parsed as
  \<^verbatim>\<open>application/x-www-form-urlencoded\<close> (split at \<^verbatim>\<open>&\<close>, empty pieces dropped, name
  and value split at the first \<^verbatim>\<open>=\<close>, \<^verbatim>\<open>+\<close> read as a space, percent-decoded, UTF-8
  decoded) and serialised again by the URL standard's serialiser.
\<close>

definition hexval8 :: "byte \<Rightarrow> int option" where
  "hexval8 b = hexval (ucast b)"

fun percent_decode :: "byte list \<Rightarrow> byte list" where
  "percent_decode [] = []"
| "percent_decode (b # bs) =
     (if b = 0x25 then
        (case bs of
           h1 # h2 # r \<Rightarrow>
             (case (hexval8 h1, hexval8 h2) of
                (Some x, Some y) \<Rightarrow> of_int (x * 16 + y) # percent_decode r
              | _ \<Rightarrow> b # percent_decode bs)
         | _ \<Rightarrow> b # percent_decode bs)
      else b # percent_decode bs)"

definition urlencoded_field :: "byte list \<Rightarrow> jsstring" where
  "urlencoded_field bs =
     utf8_decode (percent_decode (map (\<lambda>b. if b = 0x2B then 0x20 else b) bs))"

definition urlencoded_pair :: "byte list \<Rightarrow> jsstring \<times> jsstring" where
  "urlencoded_pair bs =
     (urlencoded_field (takeWhile (\<lambda>b. b \<noteq> 0x3D) bs),
      urlencoded_field (drop 1 (dropWhile (\<lambda>b. b \<noteq> 0x3D) bs)))"

definition URLSearchParams_parse :: "jsstring \<Rightarrow> (jsstring \<times> jsstring) list" where
  "URLSearchParams_parse q =
     map urlencoded_pair (filter (\<lambda>bs. bs \<noteq> []) (js_split 0x26 (TextEncoder_encode q)))"

definition upper_hexdigit :: "int \<Rightarrow> cu" where
  "upper_hexdigit n = (if n < 10 then of_int (0x30 + n) else of_int (0x41 + (n - 10)))"

definition urlencoded_byte :: "byte \<Rightarrow> jsstring" where
  "urlencoded_byte b =
     (if b = 0x20 then [0x2B]
      else if (0x30 \<le> b \<and> b \<le> 0x39) \<or> (0x41 \<le> b \<and> b \<le> 0x5A) \<or> (0x61 \<le> b \<and> b \<le> 0x7A)
              \<or> b = 0x2A \<or> b = 0x2D \<or> b = 0x2E \<or> b = 0x5F
      then [ucast b]
      else [0x25, upper_hexdigit (uint b div 16), upper_hexdigit (uint b mod 16)])"

definition urlencoded_string :: "jsstring \<Rightarrow> jsstring" where
  "urlencoded_string s = concat (map urlencoded_byte (TextEncoder_encode s))"

definition URLSearchParams_toString :: "(jsstring \<times> jsstring) list \<Rightarrow> jsstring" where
  "URLSearchParams_toString ps =
     js_join [0x26] (map (\<lambda>(n, v). urlencoded_string n @ [0x3D] @ urlencoded_string v) ps)"

subsection \<open>The proxy dispatcher\<close>

definition text_response :: "jsstring \<Rightarrow> nat \<Rightarrow> response" where
  "text_response t st = \<lparr>resp_status = st, resp_body = t\<rparr>"

definition json_response :: "json \<Rightarrow> nat \<Rightarrow> response" where
  "json_response v st = \<lparr>resp_status = st, resp_body = JSON_stringify v\<rparr>"

definition pathParts :: "request \<Rightarrow> jsstring list" where
  "pathParts r = filter (\<lambda>seg. seg \<noteq> []) (js_split 0x2F (req_path r))"

definition targetUrl :: "jsstring \<Rightarrow> request \<Rightarrow> jsstring" where
  "targetUrl h r =
     (let remainingPath = js_join [0x2F] (tl (pathParts r));
          query = URLSearchParams_toString (URLSearchParams_parse (req_query r))
      in (js ''https://'' @ h @ (if remainingPath \<noteq> [] then [0x2F] @ remainingPath else []))
         @ [0x3F] @ query)"

definition forward_fetch :: "jsstring \<Rightarrow> request \<Rightarrow> fetch_request" where
  "forward_fetch h r =
     \<lparr>fr_url = targetUrl h r,
      fr_method = (if req_method r = [] then js ''GET'' else req_method r),
      fr_headers = obj_set (req_headers r) (js ''host'') h,
      fr_body = (if toUpperCase (req_method r) \<in> {js ''POST'', js ''PUT'', js ''PATCH''}
                 then Some (req_body r) else None)\<rparr>"


definition forwardRequest :: "'k platform \<Rightarrow> HostsConfig \<Rightarrow> request \<Rightarrow> response" where
  "forwardRequest p config r =
     (case pathParts r of
        [] \<Rightarrow> text_response (js ''Invalid request path'') 400
      | workloadName # rest \<Rightarrow>
          (case config_lookup config workloadName of
             Absent \<Rightarrow>
               text_response (js ''Workload '' @ workloadName @ js '' not found'') 404
           | found \<Rightarrow>
               (let h = (case found of Own wl \<Rightarrow> host wl | _ \<Rightarrow> js ''undefined'')
                in case p_fetch p (forward_fetch h r) of
                     Inl err \<Rightarrow> text_response (js ''Error forwarding request to remote host'') 500
                   | Inr resp \<Rightarrow> resp)))"

definition getUserAndHistory :: "'k platform \<Rightarrow> world \<Rightarrow> request \<Rightarrow> error + response" where
  "getUserAndHistory p w r =
     (let cf_cookie = (case req_cookie r of None \<Rightarrow> [] | Some c \<Rightarrow> c)
      in case verifyToken p w cf_cookie of
           Inl err \<Rightarrow> Inl err
         | Inr claims \<Rightarrow>
             (case get_prop claims (js ''email'') of
                Inl err \<Rightarrow> Inl err
              | Inr email \<Rightarrow>
                  Inr (json_response
                    (JObj [(js ''user'',
                            (case email of
                               None \<Rightarrow> JStr (js ''unknown user'')
                             | Some v \<Rightarrow> if truthy v then v else JStr (js ''unknown user''))),
                           (js ''history'',
                            JArr [JStr (js ''insert identity history0 here''),
                                  JStr (js ''insert identity history1 here'')])])
                    200)))"

subsection \<open>Routing\<close>

text \<open>
  The routes that \<open>handleRequest\<close> registers, in order, and hono's choice among them:
  the first route whose method and pattern match handles the request, \<^verbatim>\<open>/name/*\<close>
  matches \<^verbatim>\<open>/name\<close> and everything below it, \<^verbatim>\<open>HEAD\<close> is routed as \<^verbatim>\<open>GET\<close> and
  answered without a body, no match is hono's 404. An \<^verbatim>\<open>Error\<close> thrown by a handler goes
  to \<open>onError\<close>; a thrown value that is not an \<^verbatim>\<open>Error\<close> is thrown on. What is thrown
  before \<^verbatim>\<open>app.fetch\<close> (loading or refreshing the table) leaves \<open>handleRequest\<close>
  uncaught.
\<close>

datatype pattern = Exact jsstring | Under jsstring | Any

datatype handler = HProvider provider_fn | HConfig | HUser

type_synonym route = "jsstring \<times> pattern \<times> handler"

fun matches :: "pattern \<Rightarrow> jsstring \<Rightarrow> bool" where
  "matches (Exact pat) path = (path = pat)"
| "matches (Under pat) path = (path = pat \<or> take (Suc (length pat)) path = pat @ [0x2F])"
| "matches Any path = True"

definition router_metachar :: "cu \<Rightarrow> bool" where
  "router_metachar c = (c = 0x3A \<or> c = 0x2A \<or> c = 0x3F \<or> c = 0x7B \<or> c = 0x7D)"

definition plain_names :: "HostsConfig \<Rightarrow> bool" where
  "plain_names config = (\<forall>(name, wl) \<in> set config. \<forall>c \<in> set name. \<not> router_metachar c)"

definition workload_routes :: "jsstring \<times> Workload \<Rightarrow> route list" where
  "workload_routes nw =
     (case Providers (provider (snd nw)) of
        None \<Rightarrow> []
      | Some f \<Rightarrow>
          [(js ''GET'', Exact ([0x2F] @ fst nw), HProvider f),
           (js ''GET'', Under ([0x2F] @ fst nw), HProvider f),
           (js ''POST'', Under ([0x2F] @ fst nw), HProvider f),
           (js ''PUT'', Under ([0x2F] @ fst nw), HProvider f),
           (js ''DELETE'', Under ([0x2F] @ fst nw), HProvider f),
           (js ''PATCH'', Under ([0x2F] @ fst nw), HProvider f)])"

definition routes :: "HostsConfig \<Rightarrow> route list" where
  "routes config =
     concat (map workload_routes config)
     @ [(js ''GET'', Exact (js ''/config''), HConfig), (js ''GET'', Any, HUser)]"

definition route_matches :: "request \<Rightarrow> route \<Rightarrow> bool" where
  "route_matches r rt =
     (fst rt = (if req_method r = js ''HEAD'' then js ''GET'' else req_method r)
      \<and> matches (fst (snd rt)) (req_path r))"

text \<open>
  \<^verbatim>\<open>Error.prototype.toString\<close> for an error whose name is \<^verbatim>\<open>Error\<close>: the name alone when
  the message is empty, otherwise name, colon, space and message.
\<close>

definition Error_toString :: "jsstring \<Rightarrow> jsstring" where
  "Error_toString m = (if m = [] then js ''Error'' else js ''Error: '' @ m)"

definition err_toString :: "'k platform \<Rightarrow> error \<Rightarrow> jsstring" where
  "err_toString p err =
     (case err of
        Error m \<Rightarrow> Error_toString m
      | HTTPException st m \<Rightarrow> Error_toString m
      | _ \<Rightarrow> p_error_text p err)"

definition onError :: "'k platform \<Rightarrow> error \<Rightarrow> error + response" where
  "onError p err =
     (case err of
        HTTPException st m \<Rightarrow> Inr (text_response m st)
      | ThrownString t \<Rightarrow> Inl err
      | Unmodelled \<Rightarrow> Inl err
      | _ \<Rightarrow>
          Inr (json_response
                 (JObj [(js ''message'', JStr (js ''something went wrong'')),
                        (js ''err'', JStr (err_toString p err))])
                 500))"

definition run_handler ::
  "'k platform \<Rightarrow> env \<Rightarrow> world \<Rightarrow> HostsConfig \<Rightarrow> request \<Rightarrow> handler \<Rightarrow> (error + response) \<times> world" where
  "run_handler p e w config r h =
     (case h of
        HProvider ProviderExample \<Rightarrow> (Inr (forwardRequest p config r), w)
      | HProvider ProviderInherited \<Rightarrow> (Inl Unmodelled, w)
      | HConfig \<Rightarrow>
          (case refreshConfig p e w of
             (Inl err, w') \<Rightarrow> (Inl err, w')
           | (Inr config', w') \<Rightarrow> (Inr (json_response config' 200), w'))
      | HUser \<Rightarrow> (getUserAndHistory p w r, w))"

definition dispatch ::
  "'k platform \<Rightarrow> env \<Rightarrow> world \<Rightarrow> HostsConfig \<Rightarrow> request \<Rightarrow> (error + response) \<times> world" where
  "dispatch p e w config r =
     (case find (route_matches r) (routes config) of
        None \<Rightarrow> (Inr (text_response (js ''404 Not Found'') 404), w)
      | Some rt \<Rightarrow>
          (case run_handler p e w config r (snd (snd rt)) of
             (Inl err, w') \<Rightarrow> (onError p err, w')
           | (Inr resp, w') \<Rightarrow> (Inr resp, w')))"

definition app_fetch ::
  "'k platform \<Rightarrow> env \<Rightarrow> world \<Rightarrow> HostsConfig \<Rightarrow> request \<Rightarrow> (error + response) \<times> world" where
  "app_fetch p e w config r =
     (case dispatch p e w config r of
        (Inl err, w') \<Rightarrow> (Inl err, w')
      | (Inr resp, w') \<Rightarrow>
          (Inr (if req_method r = js ''HEAD'' then resp\<lparr>resp_body := []\<rparr> else resp), w'))"

definition handleRequest ::
  "'k platform \<Rightarrow> env \<Rightarrow> world \<Rightarrow> request \<Rightarrow> (error + response) \<times> world" where
  "handleRequest p e w r =
     (case CONFIG_get_json w (getConfigKey e) of
        (Inl err, w1) \<Rightarrow> (Inl err, w1)
      | (Inr stored, w1) \<Rightarrow>
          (case (if truthy stored then (Inr stored, w1) else refreshConfig p e w1) of
             (Inl err, w2) \<Rightarrow> (Inl err, w2)
           | (Inr workloadConfig, w2) \<Rightarrow>
               (case as_HostsConfig workloadConfig of
                  None \<Rightarrow> (Inl Unmodelled, w2)
                | Some config \<Rightarrow>
                    if plain_names config then app_fetch p e w2 config r
                    else (Inl Unmodelled, w2))))"


section \<open>A concrete platform for running the model\<close>

text \<open>
  A small platform on which every operation computes: key handles are numbers, the
  signature of a message is a one-byte checksum keyed by the pair's number, the digest
  is twenty copies of the byte sum, and YAML documents are the JSON subset of YAML.
  The network is a parameter.
\<close>

definition demo_exportKey :: "nat \<Rightarrow> error + json" where
  "demo_exportKey k = Inr (JObj [(js ''kty'', JStr (js ''RSA'')), (js ''n'', JNum (int k))])"

definition demo_importKey :: "json option \<Rightarrow> key_usage \<Rightarrow> error + nat" where
  "demo_importKey jwk u =
     (case jwk of
        Some (JObj ms) \<Rightarrow>
          (case map_of ms (js ''n'') of Some (JNum n) \<Rightarrow> Inr (nat n) | _ \<Rightarrow> Inl TypeError)
      | _ \<Rightarrow> Inl TypeError)"

definition demo_tag :: "nat \<Rightarrow> byte list \<Rightarrow> byte list" where
  "demo_tag k m = [of_nat (k div 2) + sum_list m]"

definition demo_platform :: "(fetch_request \<Rightarrow> error + response) \<Rightarrow> nat platform" where
  "demo_platform net =
     \<lparr>p_fetch = net,
      p_generateKey = (\<lambda>n. Inr (2 * n + 2, 2 * n + 3)),
      p_exportKey = demo_exportKey,
      p_importKey = demo_importKey,
      p_sign = (\<lambda>k m. Inr (demo_tag k m)),
      p_verify = (\<lambda>k sig m. Inr (sig = demo_tag k m)),
      p_digest = (\<lambda>bs. Inr (replicate 20 (sum_list bs))),
      p_yaml_parse = JSON_parse,
      p_coerce_lt = (\<lambda>v n. False),
      p_coerce_eq = (\<lambda>a b. False),
      p_error_text = (\<lambda>err. js ''engine error'')\<rparr>"

definition no_network :: "fetch_request \<Rightarrow> error + response" where
  "no_network r = Inl (PlatformError (js ''network error''))"

definition demo_env :: env where
  "demo_env = \<lparr>KEY_PREFIX = js ''default''\<rparr>"

definition empty_world :: world where
  "empty_world = \<lparr>kv = Map.empty, trace = [], keygens = 0, time_ms = 1000000\<rparr>"


definition demo_keyset_text :: jsstring where
  \<open>demo_keyset_text =
     js ''{"public":{"kty":"RSA","n":2},"private":{"kty":"RSA","n":3},"kid":"4242424242424242424242424242424242424242"}''\<close>

definition demo_config_text :: jsstring where
  \<open>demo_config_text = js ''{"workload1":{"provider":"example","host":"example.com","type":"web"}}''\<close>

definition old_config_text :: jsstring where
  \<open>old_config_text = js ''{"oldWorkload":{"provider":"example","host":"example.com","type":"web"}}''\<close>

definition shadow_config_text :: jsstring where
  \<open>shadow_config_text = js ''{"config":{"provider":"example","host":"foo.com","type":"web"}}''\<close>

definition demo_certs_text :: jsstring where
  \<open>demo_certs_text = js ''{"keys":[{"kid":"k0","n":6},{"kid":"k1","n":2}]}''\<close>

definition github_net :: "nat \<Rightarrow> jsstring \<Rightarrow> fetch_request \<Rightarrow> error + response" where
  "github_net st text r =
     (if fr_url r = config_url then Inr \<lparr>resp_status = st, resp_body = text\<rparr>
      else if fr_url r = certs_url then Inr \<lparr>resp_status = 200, resp_body = demo_certs_text\<rparr>
      else if take 15 (fr_url r) = js ''https://foo.com''
      then Inr \<lparr>resp_status = 200, resp_body = js ''backend''\<rparr>
      else Inl (PlatformError (js ''network error'')))"

definition stored_world :: "jsstring \<Rightarrow> jsstring \<Rightarrow> world" where
  "stored_world k text = \<lparr>kv = [k \<mapsto> text], trace = [], keygens = 0, time_ms = 1000000\<rparr>"

definition get_request :: "jsstring \<Rightarrow> jsstring \<Rightarrow> request" where
  "get_request path q =
     \<lparr>req_method = js ''GET'', req_path = path, req_query = q, req_cookie = None,
      req_headers = [], req_body = []\<rparr>"

definition demo_table :: json where
  "demo_table =
     JObj [(js ''workload1'',
            JObj [(js ''provider'', JStr (js ''example'')), (js ''host'', JStr (js ''example.com'')),
                  (js ''type'', JStr (js ''web''))])]"

definition old_table :: json where
  "old_table =
     JObj [(js ''oldWorkload'',
            JObj [(js ''provider'', JStr (js ''example'')), (js ''host'', JStr (js ''example.com'')),
                  (js ''type'', JStr (js ''web''))])]"

definition old_config :: HostsConfig where
  "old_config =
     [(js ''oldWorkload'',
       \<lparr>provider = js ''example'', host = js ''example.com'', wtype = js ''web''\<rparr>)]"

definition access_platform :: "nat platform" where
  "access_platform = demo_platform (github_net 200 demo_config_text)"

definition demo_header :: json where
  "demo_header = JObj [(js ''alg'', JStr (js ''RS256'')), (js ''kid'', JStr (js ''k1''))]"

definition expired_token :: jsstring where
  "expired_token = js ''eyJhbGciOiJSUzI1NiIsImtpZCI6ImsxIn0.eyJleHAiOjV9.tg''"

definition expired_forged_token :: jsstring where
  "expired_forged_token = js ''eyJhbGciOiJSUzI1NiIsImtpZCI6ImsxIn0.eyJleHAiOjV9.AAAA''"

definition null_exp_token :: jsstring where
  "null_exp_token = js ''eyJhbGciOiJSUzI1NiIsImtpZCI6ImsxIn0.eyJleHAiOm51bGx9.6g''"

definition no_exp_token :: jsstring where
  "no_exp_token = js ''eyJhbGciOiJSUzI1NiIsImtpZCI6ImsxIn0.eyJlbWFpbCI6ImFAYi5jIn0.Lw''"

definition demo_config :: HostsConfig where
  "demo_config =
     [(js ''workload1'',
       \<lparr>provider = js ''example'', host = js ''foo.com'', wtype = js ''web''\<rparr>)]"

definition foo_config_text :: jsstring where
  \<open>foo_config_text = js ''{"workload1":{"provider":"example","host":"foo.com","type":"web"}}''\<close>

definition accented_token :: jsstring where
  "accented_token =
     js ''eyJhbGciOiJSUzI1NiIsImtpZCI6IjQyNDI0MjQyNDI0MjQyNDI0MjQyNDI0MjQyNDI0MjQyNDI0MjQyNDIifQ.Iuki.TQ''"

section \<open>Key identifiers\<close>

lemma length_hex_digest: "length (concat (map hex2 hash)) = 2 * length hash"
  by (induction hash) (simp_all add: hex2_def)

lemma sha1_kid_is_whole_digest:
  assumes "length hash = 20"
  shows "take 64 (concat (map hex2 hash)) = concat (map hex2 hash)"
  using assms by (simp add: length_hex_digest)


lemma demo_generateKeys_stored:
  "kv (snd (generateKeys (demo_platform no_network) demo_env empty_world)) (getSigningKey demo_env)
     = Some demo_keyset_text"
  by code_simp




section \<open>Obtaining the signing handle\<close>

lemma keyset_record_truthy: "truthy (keyset_record pub priv k)"
  by (simp add: keyset_record_def)

lemma keyset_record_private:
  "get_prop (keyset_record pub priv k) (js ''private'') = Inr (Some priv)"
  by (simp add: keyset_record_def js_def)

lemma keyset_record_kid:
  "get_prop (keyset_record pub priv k) (js ''kid'') = Inr (Some (JStr k))"
  by (simp add: keyset_record_def js_def)

lemma loadPublicKey_generations:
  "count_list (trace (snd (loadPublicKey p e w))) KeyGenerated
     \<le> Suc (count_list (trace w) KeyGenerated)"
  by (auto simp: loadPublicKey_def CONFIG_get_json_def generateKeys_def generateKeys_try_def
                 CONFIG_put_def Let_def
           split: sum.splits prod.splits option.splits if_splits)

lemma CONFIG_get_json_trace:
  "trace (snd (CONFIG_get_json w k)) = trace w @ [KVGet k]"
  by (simp add: CONFIG_get_json_def)

lemma usable_no_retry:
  assumes "reads_usable w (getSigningKey e)"
  shows "trace (snd (loadSigningKey p e w)) = trace w @ [KVGet (getSigningKey e)]"
proof -
  obtain r w1 where g: "CONFIG_get_json w (getSigningKey e) = (r, w1)"
    by (cases "CONFIG_get_json w (getSigningKey e)")
  then have t: "trace w1 = trace w @ [KVGet (getSigningKey e)]"
    using CONFIG_get_json_trace[of w "getSigningKey e"] by simp
  from assms g have "case r of Inl err \<Rightarrow> True | Inr v \<Rightarrow> truthy v"
    by (simp add: reads_usable_def)
  with g t show ?thesis
    by (subst loadSigningKey.simps) (auto split: sum.splits)
qed

lemma loadSigningKey_at_most_one_generation:
  "count_list (trace (snd (loadSigningKey p e w))) KeyGenerated
     \<le> Suc (count_list (trace w) KeyGenerated)"
proof -
  obtain r w1 where g: "CONFIG_get_json w (getSigningKey e) = (r, w1)"
    by (cases "CONFIG_get_json w (getSigningKey e)")
  then have t: "trace w1 = trace w @ [KVGet (getSigningKey e)]"
    using CONFIG_get_json_trace[of w "getSigningKey e"] by simp
  show ?thesis
  proof (cases "reads_usable w (getSigningKey e)")
    case True
    then show ?thesis by (simp add: usable_no_retry)
  next
    case False
    with g obtain keyset where r: "r = Inr keyset" and falsy: "\<not> truthy keyset"
      by (auto simp: reads_usable_def split: sum.splits)
    obtain r2 w2 where lp: "loadPublicKey p e w1 = (r2, w2)"
      by (cases "loadPublicKey p e w1")
    have c2: "count_list (trace w2) KeyGenerated \<le> Suc (count_list (trace w) KeyGenerated)"
      using loadPublicKey_generations[of p e w1] lp t by simp
    show ?thesis
    proof (cases r2)
      case (Inl err)
      with g r falsy lp c2 show ?thesis
        by (subst loadSigningKey.simps) simp
    next
      case (Inr pk)
      with g r falsy lp have u: "reads_usable w2 (getSigningKey e)"
        using loadPublicKey_usable[of w "getSigningKey e" keyset w1 e p pk w2] by simp
      have "loadSigningKey p e w = loadSigningKey p e w2"
        using g r falsy lp Inr by (subst loadSigningKey.simps) simp
      with u c2 show ?thesis by (simp add: usable_no_retry)
    qed
  qed
qed


text \<open>
  C9. When the store holds no key-set record, \<open>loadSigningKey\<close> calls
  \<open>loadPublicKey\<close>, which generates and stores one key pair, and then calls itself once:
  the second call finds the record and returns the handle. The trace shows the three
  reads (the first call, \<open>loadPublicKey\<close>, the retry), one generation and one write.
  The hypotheses say that the platform's key generation, export, digest and import
  succeed and that the stored record reads back (the store is read-your-writes). On
  every path, also the failing ones, at most one key pair is generated
  (\<open>loadSigningKey_at_most_one_generation\<close>), and the function is total.
\<close>

theorem loadSigningKey_generates_once:
  assumes absent: "kv w (getSigningKey e) = None"
    and gen: "p_generateKey p (keygens w) = Inr kp"
    and pub: "p_exportKey p (fst kp) = Inr pub"
    and priv: "p_exportKey p (snd kp) = Inr priv"
    and dig: "p_digest p (TextEncoder_encode (JSON_stringify pub)) = Inr hash"
    and k: "k = take 64 (concat (map hex2 hash))"
    and readback: "JSON_parse (JSON_stringify (keyset_record pub priv k)) = Inr (keyset_record pub priv k)"
    and imp: "p_importKey p (Some priv) UseSign = Inr sk"
  shows "fst (loadSigningKey p e w) = Inr (Some (JStr k), sk)
       \<and> keygens (snd (loadSigningKey p e w)) = Suc (keygens w)
       \<and> kv (snd (loadSigningKey p e w))
           = (kv w)(getSigningKey e \<mapsto> JSON_stringify (keyset_record pub priv k))
       \<and> trace (snd (loadSigningKey p e w))
           = trace w @ [KVGet (getSigningKey e), KVGet (getSigningKey e), KeyGenerated,
                        KVPut (getSigningKey e) (JSON_stringify (keyset_record pub priv k)),
                        KVGet (getSigningKey e)]"
proof -
  let ?key = "getSigningKey e"
  let ?text = "JSON_stringify (keyset_record pub priv k)"
  let ?w1 = "w\<lparr>trace := trace w @ [KVGet ?key]\<rparr>"
  let ?w1a = "w\<lparr>trace := trace w @ [KVGet ?key, KVGet ?key]\<rparr>"
  let ?w2 = "w\<lparr>kv := (kv w)(?key \<mapsto> ?text),
               trace := trace w @ [KVGet ?key, KVGet ?key, KeyGenerated, KVPut ?key ?text],
               keygens := Suc (keygens w)\<rparr>"
  let ?w3 = "?w2\<lparr>trace := trace ?w2 @ [KVGet ?key]\<rparr>"
  have g1: "CONFIG_get_json w ?key = (Inr JNull, ?w1)"
    using absent by (simp add: CONFIG_get_json_def)
  have g2: "CONFIG_get_json ?w1 ?key = (Inr JNull, ?w1a)"
    using absent by (simp add: CONFIG_get_json_def)
  have gk: "generateKeys p e ?w1a = (Inr \<lparr>keypair = kp, publicKey = pub, privateKey = priv, kid = k\<rparr>, ?w2)"
    using gen pub priv dig k
    by (simp add: generateKeys_def generateKeys_try_def generateKID_def CONFIG_put_def Let_def)
  have lp: "\<exists>pk. loadPublicKey p e ?w1 = (Inr pk, ?w2)"
    using g2 gk by (simp add: loadPublicKey_def)
  have g3: "CONFIG_get_json ?w2 ?key = (Inr (keyset_record pub priv k), ?w3)"
    using readback by (simp add: CONFIG_get_json_def)
  have second: "loadSigningKey p e ?w2 = (Inr (Some (JStr k), sk), ?w3)"
    by (subst loadSigningKey.simps)
       (simp add: g3 keyset_record_truthy keyset_record_private keyset_record_kid imp)
  from lp obtain pk where lp': "loadPublicKey p e ?w1 = (Inr pk, ?w2)" by blast
  have first: "loadSigningKey p e w = loadSigningKey p e ?w2"
    by (subst loadSigningKey.simps) (simp add: g1 lp')
  show ?thesis by (simp add: first second)
qed


theorem loadSigningKey_generates_once_witness:
  "kv empty_world (getSigningKey demo_env) = None
   \<and> fst (loadSigningKey (demo_platform no_network) demo_env empty_world)
       = Inr (Some (JStr (js ''4242424242424242424242424242424242424242'')), 3)
   \<and> keygens (snd (loadSigningKey (demo_platform no_network) demo_env empty_world)) = 1
   \<and> trace (snd (loadSigningKey (demo_platform no_network) demo_env empty_world))
       = [KVGet (getSigningKey demo_env), KVGet (getSigningKey demo_env), KeyGenerated,
          KVPut (getSigningKey demo_env) demo_keyset_text, KVGet (getSigningKey demo_env)]"
proof -
  let ?P = "demo_platform no_network"
  let ?pub = "JObj [(js ''kty'', JStr (js ''RSA'')), (js ''n'', JNum 2)]"
  let ?priv = "JObj [(js ''kty'', JStr (js ''RSA'')), (js ''n'', JNum 3)]"
  let ?k = "js ''4242424242424242424242424242424242424242''"
  have h1: "kv empty_world (getSigningKey demo_env) = None"
    by (simp add: empty_world_def)
  have h2: "p_generateKey ?P (keygens empty_world) = Inr (2, 3)"
    by (simp add: demo_platform_def empty_world_def)
  have h3: "p_exportKey ?P (fst (2::nat, 3::nat)) = Inr ?pub"
    by (simp add: demo_platform_def demo_exportKey_def)
  have h4: "p_exportKey ?P (snd (2::nat, 3::nat)) = Inr ?priv"
    by (simp add: demo_platform_def demo_exportKey_def)
  have h5: "p_digest ?P (TextEncoder_encode (JSON_stringify ?pub)) = Inr (replicate 20 0x42)"
    by code_simp
  have h6: "?k = take 64 (concat (map hex2 (replicate 20 0x42)))"
    by code_simp
  have h7: "JSON_parse (JSON_stringify (keyset_record ?pub ?priv ?k))
              = Inr (keyset_record ?pub ?priv ?k)"
    by code_simp
  have h8: "p_importKey ?P (Some ?priv) UseSign = Inr 3"
    by code_simp
  have t: "JSON_stringify (keyset_record ?pub ?priv ?k) = demo_keyset_text"
    by code_simp
  from loadSigningKey_generates_once[OF h1 h2 h3 h4 h5 h6 h7 h8] h1 t
  show ?thesis by (simp add: empty_world_def)
qed


section \<open>Refreshing the routing table\<close>

text \<open>
  C7. When the fetch of the remote configuration answers with a status other than 200,
  \<open>refreshConfig\<close> throws \<open>HTTPException(500, 'failed to get config from github')\<close>
  (the spec's UpstreamConfigError) and returns the world it was given: no write to the
  store happens before the throw, so the record persisted earlier is still there.
\<close>

theorem refreshConfig_non200:
  assumes "p_fetch p (simple_get config_url) = Inr resp" and "resp_status resp \<noteq> 200"
  shows "refreshConfig p e w
           = (Inl (HTTPException 500 (js ''failed to get config from github'')), w)"
  using assms by (simp add: refreshConfig_def)


theorem refreshConfig_non200_witness:
  "p_fetch (demo_platform (github_net 429 [])) (simple_get config_url)
     = Inr \<lparr>resp_status = 429, resp_body = []\<rparr>
   \<and> refreshConfig (demo_platform (github_net 429 [])) demo_env
         (stored_world (getConfigKey demo_env) old_config_text)
       = (Inl (HTTPException 500 (js ''failed to get config from github'')),
          stored_world (getConfigKey demo_env) old_config_text)
   \<and> kv (stored_world (getConfigKey demo_env) old_config_text) (getConfigKey demo_env)
       = Some old_config_text"
proof -
  have h1: "p_fetch (demo_platform (github_net 429 [])) (simple_get config_url)
     = Inr \<lparr>resp_status = 429, resp_body = []\<rparr>"
    by (simp add: demo_platform_def github_net_def simple_get_def)
  have h2: "resp_status \<lparr>resp_status = 429, resp_body = []\<rparr> \<noteq> 200"
    by simp
  have h3: "kv (stored_world (getConfigKey demo_env) old_config_text) (getConfigKey demo_env)
       = Some old_config_text"
    by (simp add: stored_world_def)
  from refreshConfig_non200[OF h1 h2] h1 h3 show ?thesis by blast
qed

lemma find_append_none:
  assumes "\<forall>x \<in> set xs. \<not> P x"
  shows "find P (xs @ ys) = find P ys"
  using assms by (induction xs) auto

lemma slash_not_in_config: "(0x2F :: cu) \<notin> set (js ''config'')"
  by (simp add: js_def)

lemma under_config:
  assumes "take (Suc (length ([0x2F] @ name))) (js ''/config'') = ([0x2F] @ name) @ [0x2F]"
  shows False
proof -
  have c: "js ''/config'' = 0x2F # js ''config''" by (simp add: js_def)
  from assms have "take (Suc (length name)) (js ''config'') = name @ [0x2F]"
    by (simp add: c)
  then have "(0x2F :: cu) \<in> set (take (Suc (length name)) (js ''config''))" by simp
  then have "(0x2F :: cu) \<in> set (js ''config'')" by (rule in_set_takeD)
  with slash_not_in_config show False by simp
qed

lemma exact_config:
  assumes "js ''/config'' = [0x2F] @ name"
  shows "name = js ''config''"
  using assms by (simp add: js_def)

lemma workload_routes_miss_config:
  assumes "Providers (provider wl) = None \<or> name \<noteq> js ''config''"
    and "req_method r = js ''GET''" and "req_path r = js ''/config''"
    and "rt \<in> set (workload_routes (name, wl))"
  shows "\<not> route_matches r rt"
proof (cases "Providers (provider wl)")
  case None
  with assms(4) show ?thesis by (simp add: workload_routes_def)
next
  case (Some f)
  with assms(1) have ne: "name \<noteq> js ''config''" by simp
  have ex: "js ''/config'' \<noteq> [0x2F] @ name" using exact_config ne by blast
  have un: "take (Suc (length ([0x2F] @ name))) (js ''/config'') \<noteq> ([0x2F] @ name) @ [0x2F]"
    using under_config by blast
  from assms(4) Some have
    "fst (snd rt) = Exact ([0x2F] @ name) \<or> fst (snd rt) = Under ([0x2F] @ name)"
    by (auto simp: workload_routes_def)
  then show ?thesis
    using ex un assms(3) by (auto simp: route_matches_def)
qed

lemma config_route_found:
  assumes "\<forall>(name, wl) \<in> set config. Providers (provider wl) = None \<or> name \<noteq> js ''config''"
    and "req_method r = js ''GET''" and "req_path r = js ''/config''"
  shows "find (route_matches r) (routes config) = Some (js ''GET'', Exact (js ''/config''), HConfig)"
proof -
  have "\<forall>rt \<in> set (concat (map workload_routes config)). \<not> route_matches r rt"
    using assms workload_routes_miss_config by fastforce
  then have "find (route_matches r) (routes config)
      = find (route_matches r) [(js ''GET'', Exact (js ''/config''), HConfig), (js ''GET'', Any, HUser)]"
    unfolding routes_def by (rule find_append_none)
  also have "\<dots> = Some (js ''GET'', Exact (js ''/config''), HConfig)"
    using assms(2,3) by (simp add: route_matches_def js_def)
  finally show ?thesis .
qed


text \<open>
  C8, as stated, fails when the persisted table itself has a workload called
  \<open>config\<close> with a registered provider: the workload's routes are registered before
  the \<open>/config\<close> route, so \<open>GET /config\<close> is proxied to that workload's host, the
  remote source is never asked and the record stays as it was.
\<close>

theorem config_route_shadowed_counterexample:
  "kv (stored_world (getConfigKey demo_env) shadow_config_text) (getConfigKey demo_env)
     = Some shadow_config_text
   \<and> p_fetch (demo_platform (github_net 200 demo_config_text)) (simple_get config_url)
       = Inr \<lparr>resp_status = 200, resp_body = demo_config_text\<rparr>
   \<and> p_yaml_parse (demo_platform (github_net 200 demo_config_text)) demo_config_text
       = Inr demo_table
   \<and> fst (handleRequest (demo_platform (github_net 200 demo_config_text)) demo_env
            (stored_world (getConfigKey demo_env) shadow_config_text)
            (get_request (js ''/config'') []))
       = Inr \<lparr>resp_status = 200, resp_body = js ''backend''\<rparr>
   \<and> js ''backend'' \<noteq> JSON_stringify demo_table
   \<and> kv (snd (handleRequest (demo_platform (github_net 200 demo_config_text)) demo_env
                (stored_world (getConfigKey demo_env) shadow_config_text)
                (get_request (js ''/config'') [])))
         (getConfigKey demo_env)
       = Some shadow_config_text
   \<and> shadow_config_text \<noteq> JSON_stringify demo_table"
proof -
  have c1: "kv (stored_world (getConfigKey demo_env) shadow_config_text) (getConfigKey demo_env)
     = Some shadow_config_text"
    by (simp add: stored_world_def)
  have c2: "p_fetch (demo_platform (github_net 200 demo_config_text)) (simple_get config_url)
       = Inr \<lparr>resp_status = 200, resp_body = demo_config_text\<rparr>"
    by (simp add: demo_platform_def github_net_def simple_get_def)
  have c3: "p_yaml_parse (demo_platform (github_net 200 demo_config_text)) demo_config_text
       = Inr demo_table"
    by code_simp
  have c4: "fst (handleRequest (demo_platform (github_net 200 demo_config_text)) demo_env
            (stored_world (getConfigKey demo_env) shadow_config_text)
            (get_request (js ''/config'') []))
       = Inr \<lparr>resp_status = 200, resp_body = js ''backend''\<rparr>"
    by code_simp
  have c5: "js ''backend'' \<noteq> JSON_stringify demo_table"
    by code_simp
  have c6: "kv (snd (handleRequest (demo_platform (github_net 200 demo_config_text)) demo_env
                (stored_world (getConfigKey demo_env) shadow_config_text)
                (get_request (js ''/config'') [])))
         (getConfigKey demo_env)
       = Some shadow_config_text"
    by code_simp
  have c7: "shadow_config_text \<noteq> JSON_stringify demo_table"
    by code_simp
  from c1 c2 c3 c4 c5 c6 c7 show ?thesis by blast
qed

text \<open>
  C8, amended. Let the persisted record be a routing table with plain workload names,
  none of them a provider-backed workload called \<open>config\<close>. Then for \<open>GET /config\<close>,
  when the remote source answers 200 with a document that parses to \<open>T\<close>, the response
  is 200 with body \<open>JSON.stringify(T)\<close>, and the store afterwards is the old store with
  the routing-table key overwritten by \<open>JSON.stringify(T)\<close>: nothing of the old record
  is kept or merged.
\<close>

theorem config_route_replaces_record:
  assumes stored: "kv w (getConfigKey e) = Some old_text"
    and parsed: "JSON_parse old_text = Inr old"
    and nonempty: "truthy old"
    and typed: "as_HostsConfig old = Some config"
    and plain: "plain_names config"
    and unshadowed:
      "\<forall>(name, wl) \<in> set config. Providers (provider wl) = None \<or> name \<noteq> js ''config''"
    and get: "req_method r = js ''GET''"
    and path: "req_path r = js ''/config''"
    and fetched: "p_fetch p (simple_get config_url) = Inr resp"
    and ok: "resp_status resp = 200"
    and yaml: "p_yaml_parse p (resp_body resp) = Inr T"
  shows "fst (handleRequest p e w r) = Inr \<lparr>resp_status = 200, resp_body = JSON_stringify T\<rparr>
       \<and> kv (snd (handleRequest p e w r)) = (kv w)(getConfigKey e \<mapsto> JSON_stringify T)"
proof -
  let ?w1 = "w\<lparr>trace := trace w @ [KVGet (getConfigKey e)]\<rparr>"
  have g: "CONFIG_get_json w (getConfigKey e) = (Inr old, ?w1)"
    using stored parsed by (simp add: CONFIG_get_json_def)
  have rf: "refreshConfig p e ?w1
      = (Inr T, CONFIG_put ?w1 (getConfigKey e) (JSON_stringify T))"
    using fetched ok yaml by (simp add: refreshConfig_def)
  have nh: "req_method r \<noteq> js ''HEAD''" using get by (simp add: js_def)
  have d: "dispatch p e ?w1 config r
      = (Inr (json_response T 200), CONFIG_put ?w1 (getConfigKey e) (JSON_stringify T))"
    using config_route_found[OF unshadowed get path] rf
    by (simp add: dispatch_def run_handler_def)
  have "handleRequest p e w r
      = (Inr (json_response T 200), CONFIG_put ?w1 (getConfigKey e) (JSON_stringify T))"
    using g nonempty typed plain d nh by (simp add: handleRequest_def app_fetch_def)
  then show ?thesis by (simp add: json_response_def CONFIG_put_def)
qed


theorem config_route_replaces_record_witness:
  "kv (stored_world (getConfigKey demo_env) old_config_text) (getConfigKey demo_env)
     = Some old_config_text
   \<and> JSON_parse old_config_text = Inr old_table
   \<and> fst (handleRequest (demo_platform (github_net 200 demo_config_text)) demo_env
            (stored_world (getConfigKey demo_env) old_config_text)
            (get_request (js ''/config'') []))
       = Inr \<lparr>resp_status = 200, resp_body = demo_config_text\<rparr>
   \<and> kv (snd (handleRequest (demo_platform (github_net 200 demo_config_text)) demo_env
                (stored_world (getConfigKey demo_env) old_config_text)
                (get_request (js ''/config'') [])))
       = (kv (stored_world (getConfigKey demo_env) old_config_text))
           (getConfigKey demo_env \<mapsto> demo_config_text)"
proof -
  let ?P = "demo_platform (github_net 200 demo_config_text)"
  let ?W = "stored_world (getConfigKey demo_env) old_config_text"
  let ?r = "get_request (js ''/config'') []"
  have h1: "kv ?W (getConfigKey demo_env) = Some old_config_text"
    by (simp add: stored_world_def)
  have h2: "JSON_parse old_config_text = Inr old_table"
    by code_simp
  have h3: "truthy old_table"
    by (simp add: old_table_def)
  have h4: "as_HostsConfig old_table = Some old_config"
    by code_simp
  have h5: "plain_names old_config"
    by code_simp
  have h6: "\<forall>(name, wl) \<in> set old_config.
              Providers (provider wl) = None \<or> name \<noteq> js ''config''"
    by code_simp
  have h7: "req_method ?r = js ''GET''"
    by (simp add: get_request_def)
  have h8: "req_path ?r = js ''/config''"
    by (simp add: get_request_def)
  have h9: "p_fetch ?P (simple_get config_url)
              = Inr \<lparr>resp_status = 200, resp_body = demo_config_text\<rparr>"
    by (simp add: demo_platform_def github_net_def simple_get_def)
  have h10: "resp_status \<lparr>resp_status = 200, resp_body = demo_config_text\<rparr> = 200"
    by simp
  have h11: "p_yaml_parse ?P (resp_body \<lparr>resp_status = 200, resp_body = demo_config_text\<rparr>)
              = Inr demo_table"
    by code_simp
  have t: "JSON_stringify demo_table = demo_config_text"
    by code_simp
  from config_route_replaces_record[OF h1 h2 h3 h4 h5 h6 h7 h8 h9 h10 h11] h1 h2 t
  show ?thesis by simp
qed


section \<open>Verifying tokens\<close>

text \<open>
  C2, as stated, fails: \<open>verifyToken\<close> checks the signature before it looks at
  \<open>exp\<close>. A well-formed token whose \<open>exp\<close> (5) lies before the current time (1000)
  and whose signature does not verify is refused with \<open>failed to verify token\<close>, not
  with \<open>expired token\<close>.
\<close>

theorem verifyToken_expired_forged_counterexample:
  "parseJWT expired_forged_token
     = Inr \<lparr>to_be_validated = js ''eyJhbGciOiJSUzI1NiIsImtpZCI6ImsxIn0.eyJleHAiOjV9'',
            header = demo_header, payload = JObj [(js ''exp'', JNum 5)],
            signature = js ''AAAA''\<rparr>
   \<and> (5::int) < time_ms empty_world div 1000
   \<and> verifyToken access_platform empty_world expired_forged_token
       = Inl (Error (js ''failed to verify token''))
   \<and> Error (js ''failed to verify token'') \<noteq> Error (js ''expired token'')"
proof -
  have c1: "parseJWT expired_forged_token
     = Inr \<lparr>to_be_validated = js ''eyJhbGciOiJSUzI1NiIsImtpZCI6ImsxIn0.eyJleHAiOjV9'',
            header = demo_header, payload = JObj [(js ''exp'', JNum 5)],
            signature = js ''AAAA''\<rparr>"
    by code_simp
  have c2: "(5::int) < time_ms empty_world div 1000"
    by (simp add: empty_world_def)
  have c3: "verifyToken access_platform empty_world expired_forged_token
       = Inl (Error (js ''failed to verify token''))"
    by code_simp
  have c4: "Error (js ''failed to verify token'') \<noteq> Error (js ''expired token'')"
    by (simp add: js_def)
  from c1 c2 c3 c4 show ?thesis by blast
qed

text \<open>
  C2, amended. For every token that parses into three segments, whose signing key
  resolves, whose signature segment decodes and verifies, and whose payload has a
  numeric \<open>exp\<close> strictly below the current time in seconds, \<open>verifyToken\<close> throws
  \<open>Error('expired token')\<close> (the spec's TokenExpiredError).
\<close>

theorem verifyToken_expired:
  assumes "parseJWT token = Inr t"
    and "get_prop (header t) (js ''kid'') = Inr kidv"
    and "fetchAccessPublicKey p kidv = Inr key"
    and "base64url_parse (signature t) = Inr sig"
    and "p_verify p key sig (asciiToUint8Array (to_be_validated t)) = Inr True"
    and "get_prop (payload t) (js ''exp'') = Inr (Some (JNum x))"
    and "x < time_ms w div 1000"
  shows "verifyToken p w token = Inl (Error (js ''expired token''))"
  using assms by (simp add: verifyToken_def js_lt_def)

theorem verifyToken_expired_witness:
  "parseJWT expired_token
     = Inr \<lparr>to_be_validated = js ''eyJhbGciOiJSUzI1NiIsImtpZCI6ImsxIn0.eyJleHAiOjV9'',
            header = demo_header, payload = JObj [(js ''exp'', JNum 5)],
            signature = js ''tg''\<rparr>
   \<and> verifyToken access_platform empty_world expired_token = Inl (Error (js ''expired token''))"
proof -
  let ?t = "\<lparr>to_be_validated = js ''eyJhbGciOiJSUzI1NiIsImtpZCI6ImsxIn0.eyJleHAiOjV9'',
            header = demo_header, payload = JObj [(js ''exp'', JNum 5)],
            signature = js ''tg''\<rparr>"
  have h1: "parseJWT expired_token = Inr ?t"
    by code_simp
  have h2: "get_prop (header ?t) (js ''kid'') = Inr (Some (JStr (js ''k1'')))"
    by code_simp
  have h3: "fetchAccessPublicKey access_platform (Some (JStr (js ''k1''))) = Inr 2"
    by code_simp
  have h4: "base64url_parse (signature ?t) = Inr [0xB6]"
    by code_simp
  have h5: "p_verify access_platform 2 [0xB6] (asciiToUint8Array (to_be_validated ?t)) = Inr True"
    by code_simp
  have h6: "get_prop (payload ?t) (js ''exp'') = Inr (Some (JNum 5))"
    by code_simp
  have h7: "(5::int) < time_ms empty_world div 1000"
    by (simp add: empty_world_def)
  from verifyToken_expired[OF h1 h2 h3 h4 h5 h6 h7] h1 show ?thesis by blast
qed

text \<open>
  C10, as stated, fails: a payload whose \<open>exp\<close> is present but not a number is still
  compared with \<open>\<less>\<close>, after JavaScript's coercion to a number. With \<open>"exp": null\<close> the
  comparison is \<open>0 < now\<close>, so a token with a valid signature and no numeric \<open>exp\<close> is
  refused as expired.
\<close>

theorem verifyToken_null_exp_counterexample:
  "parseJWT null_exp_token
     = Inr \<lparr>to_be_validated = js ''eyJhbGciOiJSUzI1NiIsImtpZCI6ImsxIn0.eyJleHAiOm51bGx9'',
            header = demo_header, payload = JObj [(js ''exp'', JNull)],
            signature = js ''6g''\<rparr>
   \<and> fetchAccessPublicKey access_platform (Some (JStr (js ''k1''))) = Inr 2
   \<and> base64url_parse (js ''6g'') = Inr [0xEA]
   \<and> p_verify access_platform 2 [0xEA]
         (asciiToUint8Array (js ''eyJhbGciOiJSUzI1NiIsImtpZCI6ImsxIn0.eyJleHAiOm51bGx9''))
       = Inr True
   \<and> verifyToken access_platform empty_world null_exp_token
       = Inl (Error (js ''expired token''))"
proof -
  have c1: "parseJWT null_exp_token
     = Inr \<lparr>to_be_validated = js ''eyJhbGciOiJSUzI1NiIsImtpZCI6ImsxIn0.eyJleHAiOm51bGx9'',
            header = demo_header, payload = JObj [(js ''exp'', JNull)],
            signature = js ''6g''\<rparr>"
    by code_simp
  have c2: "fetchAccessPublicKey access_platform (Some (JStr (js ''k1''))) = Inr 2"
    by code_simp
  have c3: "base64url_parse (js ''6g'') = Inr [0xEA]"
    by code_simp
  have c4: "p_verify access_platform 2 [0xEA]
         (asciiToUint8Array (js ''eyJhbGciOiJSUzI1NiIsImtpZCI6ImsxIn0.eyJleHAiOm51bGx9''))
       = Inr True"
    by code_simp
  have c5: "verifyToken access_platform empty_world null_exp_token
       = Inl (Error (js ''expired token''))"
    by code_simp
  from c1 c2 c3 c4 c5 show ?thesis by blast
qed

text \<open>
  C10, amended. For every token that parses, whose key resolves and whose signature
  verifies, and whose payload is not \<open>null\<close> and either has no \<open>exp\<close> member at all or
  has a numeric \<open>exp\<close> equal to the current time in seconds, \<open>verifyToken\<close> returns the
  payload: the comparison is \<open>exp < now\<close>, which is false for \<open>undefined\<close> and for
  \<open>now\<close> itself.
\<close>

theorem verifyToken_unexpired:
  assumes "parseJWT token = Inr t"
    and "get_prop (header t) (js ''kid'') = Inr kidv"
    and "fetchAccessPublicKey p kidv = Inr key"
    and "base64url_parse (signature t) = Inr sig"
    and "p_verify p key sig (asciiToUint8Array (to_be_validated t)) = Inr True"
    and "get_prop (payload t) (js ''exp'') = Inr ex"
    and "ex = None \<or> ex = Some (JNum (time_ms w div 1000))"
  shows "verifyToken p w token = Inr (payload t)"
  using assms by (auto simp: verifyToken_def js_lt_def)

theorem verifyToken_unexpired_witness:
  "parseJWT no_exp_token
     = Inr \<lparr>to_be_validated =
              js ''eyJhbGciOiJSUzI1NiIsImtpZCI6ImsxIn0.eyJlbWFpbCI6ImFAYi5jIn0'',
            header = demo_header, payload = JObj [(js ''email'', JStr (js ''a@b.c''))],
            signature = js ''Lw''\<rparr>
   \<and> verifyToken access_platform empty_world no_exp_token
       = Inr (JObj [(js ''email'', JStr (js ''a@b.c''))])"
proof -
  let ?t = "\<lparr>to_be_validated =
              js ''eyJhbGciOiJSUzI1NiIsImtpZCI6ImsxIn0.eyJlbWFpbCI6ImFAYi5jIn0'',
            header = demo_header, payload = JObj [(js ''email'', JStr (js ''a@b.c''))],
            signature = js ''Lw''\<rparr>"
  have h1: "parseJWT no_exp_token = Inr ?t"
    by code_simp
  have h2: "get_prop (header ?t) (js ''kid'') = Inr (Some (JStr (js ''k1'')))"
    by code_simp
  have h3: "fetchAccessPublicKey access_platform (Some (JStr (js ''k1''))) = Inr 2"
    by code_simp
  have h4: "base64url_parse (signature ?t) = Inr [0x2F]"
    by code_simp
  have h5: "p_verify access_platform 2 [0x2F] (asciiToUint8Array (to_be_validated ?t)) = Inr True"
    by code_simp
  have h6: "get_prop (payload ?t) (js ''exp'') = Inr None"
    by code_simp
  have h7: "(None :: json option) = None \<or> None = Some (JNum (time_ms empty_world div 1000))"
    by simp
  from verifyToken_unexpired[OF h1 h2 h3 h4 h5 h6 h7] h1 show ?thesis by simp
qed


section \<open>Dispatching requests\<close>

text \<open>
  The target URL as the specification words it: \<open>https://H\<close>, then a slash and the
  remaining segments when there are any, then the original query string unmodified
  (behind a question mark) when there is one, and nothing else.
\<close>

definition claimed_targetUrl :: "jsstring \<Rightarrow> request \<Rightarrow> jsstring" where
  "claimed_targetUrl h r =
     js ''https://'' @ h
     @ (if tl (pathParts r) = [] then [] else [0x2F] @ js_join [0x2F] (tl (pathParts r)))
     @ (if req_query r = [] then [] else [0x3F] @ req_query r)"

lemma js_join_empty_iff:
  assumes "\<forall>x \<in> set xs. x \<noteq> []"
  shows "(js_join sep xs = []) = (xs = [])"
  using assms by (induction sep xs rule: js_join.induct) auto

lemma pathParts_nonempty: "\<forall>seg \<in> set (pathParts r). seg \<noteq> []"
  by (simp add: pathParts_def)


text \<open>
  C4, as stated, fails: the query is not copied but parsed and serialised again by
  \<open>URLSearchParams\<close>. For \<open>/workload1/path?a\<close> the dispatcher asks for
  \<open>https://foo.com/path?a=\<close>, not for \<open>https://foo.com/path?a\<close>.
\<close>

theorem targetUrl_reserialised_counterexample:
  "pathParts (get_request (js ''/workload1/path'') (js ''a'')) = [js ''workload1'', js ''path'']
   \<and> config_lookup demo_config (js ''workload1'')
       = Own \<lparr>provider = js ''example'', host = js ''foo.com'', wtype = js ''web''\<rparr>
   \<and> fr_url (forward_fetch (js ''foo.com'') (get_request (js ''/workload1/path'') (js ''a'')))
       = js ''https://foo.com/path?a=''
   \<and> claimed_targetUrl (js ''foo.com'') (get_request (js ''/workload1/path'') (js ''a''))
       = js ''https://foo.com/path?a''
   \<and> js ''https://foo.com/path?a='' \<noteq> js ''https://foo.com/path?a''"
proof -
  have c1: "pathParts (get_request (js ''/workload1/path'') (js ''a''))
              = [js ''workload1'', js ''path'']"
    by code_simp
  have c2: "config_lookup demo_config (js ''workload1'')
       = Own \<lparr>provider = js ''example'', host = js ''foo.com'', wtype = js ''web''\<rparr>"
    by code_simp
  have c3: "fr_url (forward_fetch (js ''foo.com'') (get_request (js ''/workload1/path'') (js ''a'')))
       = js ''https://foo.com/path?a=''"
    by code_simp
  have c4: "claimed_targetUrl (js ''foo.com'') (get_request (js ''/workload1/path'') (js ''a''))
       = js ''https://foo.com/path?a''"
    by code_simp
  have c5: "js ''https://foo.com/path?a='' \<noteq> js ''https://foo.com/path?a''"
    by (simp add: js_def)
  from c1 c2 c3 c4 c5 show ?thesis by blast
qed

text \<open>
  The question mark is appended also when the request has no query at all: for
  \<open>/workload1/\<close> the URL handed to \<open>fetch\<close> is \<open>https://foo.com?\<close>.
\<close>

lemma targetUrl_bare_host:
  "fr_url (forward_fetch (js ''foo.com'') (get_request (js ''/workload1/'') []))
     = js ''https://foo.com?''"
  by code_simp

text \<open>
  C4, amended. For every request whose first path segment is a workload of the routing
  table with host \<open>H\<close> and whose query has at least one parameter, the dispatcher's
  outbound call (its answer is relayed, its failure becomes the fixed 500) goes to
  \<open>https://H\<close>, followed by a slash and the remaining non-empty segments joined by
  slashes when any remain, followed by \<open>?\<close> and the query as \<open>URLSearchParams\<close>
  serialises it: one \<open>name=value\<close> per parameter, in order, repeated keys included.
\<close>

theorem forwardRequest_targetUrl:
  assumes parts: "pathParts r = name # rest"
    and found: "config_lookup config name = Own wl"
    and query: "URLSearchParams_parse (req_query r) \<noteq> []"
  shows "forwardRequest p config r
           = (case p_fetch p (forward_fetch (host wl) r) of
                Inl err \<Rightarrow> text_response (js ''Error forwarding request to remote host'') 500
              | Inr resp \<Rightarrow> resp)
       \<and> fr_url (forward_fetch (host wl) r)
           = js ''https://'' @ host wl
             @ (if rest = [] then [] else [0x2F] @ js_join [0x2F] rest)
             @ [0x3F] @ URLSearchParams_toString (URLSearchParams_parse (req_query r))"
proof -
  have "\<forall>seg \<in> set rest. seg \<noteq> []"
    using pathParts_nonempty[of r] parts by simp
  then have j: "(js_join [0x2F] rest = []) = (rest = [])"
    by (rule js_join_empty_iff)
  have u: "fr_url (forward_fetch (host wl) r)
           = js ''https://'' @ host wl
             @ (if rest = [] then [] else [0x2F] @ js_join [0x2F] rest)
             @ [0x3F] @ URLSearchParams_toString (URLSearchParams_parse (req_query r))"
    using parts j by (simp add: forward_fetch_def targetUrl_def Let_def)
  have f: "forwardRequest p config r
           = (case p_fetch p (forward_fetch (host wl) r) of
                Inl err \<Rightarrow> text_response (js ''Error forwarding request to remote host'') 500
              | Inr resp \<Rightarrow> resp)"
    using parts found by (simp add: forwardRequest_def)
  from f u show ?thesis by blast
qed


theorem forwardRequest_targetUrl_witness:
  "pathParts (get_request (js ''/workload1/path'')
       (js ''param=value&param2=test1&param2=test2&param3=true''))
     = [js ''workload1'', js ''path'']
   \<and> URLSearchParams_parse (js ''param=value&param2=test1&param2=test2&param3=true'')
       = [(js ''param'', js ''value''), (js ''param2'', js ''test1''),
          (js ''param2'', js ''test2''), (js ''param3'', js ''true'')]
   \<and> fr_url (forward_fetch (js ''foo.com'')
         (get_request (js ''/workload1/path'')
            (js ''param=value&param2=test1&param2=test2&param3=true'')))
       = js ''https://foo.com/path?param=value&param2=test1&param2=test2&param3=true''"
proof -
  let ?r = "get_request (js ''/workload1/path'')
              (js ''param=value&param2=test1&param2=test2&param3=true'')"
  let ?wl = "\<lparr>provider = js ''example'', host = js ''foo.com'', wtype = js ''web''\<rparr>"
  have h1: "pathParts ?r = js ''workload1'' # [js ''path'']"
    by code_simp
  have h2: "config_lookup demo_config (js ''workload1'') = Own ?wl"
    by code_simp
  have ps: "URLSearchParams_parse (js ''param=value&param2=test1&param2=test2&param3=true'')
       = [(js ''param'', js ''value''), (js ''param2'', js ''test1''),
          (js ''param2'', js ''test2''), (js ''param3'', js ''true'')]"
    by code_simp
  have q: "req_query ?r = js ''param=value&param2=test1&param2=test2&param3=true''"
    by (simp add: get_request_def)
  have h3: "URLSearchParams_parse (req_query ?r) \<noteq> []"
    using ps q by simp
  have e: "js ''https://'' @ host ?wl
             @ (if [js ''path''] = [] then [] else [0x2F] @ js_join [0x2F] [js ''path''])
             @ [0x3F] @ URLSearchParams_toString (URLSearchParams_parse (req_query ?r))
           = js ''https://foo.com/path?param=value&param2=test1&param2=test2&param3=true''"
    by code_simp
  have hw: "host ?wl = js ''foo.com''"
    by simp
  from forwardRequest_targetUrl[OF h1 h2 h3, of access_platform] e hw h1 ps
  show ?thesis by simp
qed

text \<open>
  A \<open>GET\<close> that matches none of the routes registered for the workloads of the table,
  and whose path is not \<^verbatim>\<open>/config\<close>, is handled by the catch-all route that is registered last: the
  dispatcher does not run.
\<close>

lemma unmatched_get_is_catch_all:
  assumes "req_method r = js ''GET''" and "req_path r \<noteq> js ''/config''"
    and "\<forall>rt \<in> set (concat (map workload_routes config)). \<not> route_matches r rt"
  shows "dispatch p e w config r
           = (case getUserAndHistory p w r of
                Inl err \<Rightarrow> (onError p err, w)
              | Inr resp \<Rightarrow> (Inr resp, w))"
proof -
  have f: "find (route_matches r) (routes config)
      = find (route_matches r) [(js ''GET'', Exact (js ''/config''), HConfig), (js ''GET'', Any, HUser)]"
    unfolding routes_def using assms(3) by (rule find_append_none)
  have "find (route_matches r) (routes config) = Some (js ''GET'', Any, HUser)"
    unfolding f using assms(1,2) by (simp add: route_matches_def js_def)
  then show ?thesis
    by (simp add: dispatch_def run_handler_def split: sum.splits)
qed

text \<open>
  C5, as stated, fails at the HTTP surface. With the table \<^verbatim>\<open>{workload1}\<close> the request
  \<^verbatim>\<open>GET /doesnotexist\<close>, whose first segment is not in the table, is answered by the
  catch-all route and not by the dispatcher: without a token the response has status 500,
  not 404.
\<close>

theorem unknown_workload_catch_all_counterexample:
  "JSON_parse foo_config_text
     = Inr (JObj [(js ''workload1'',
              JObj [(js ''provider'', JStr (js ''example'')), (js ''host'', JStr (js ''foo.com'')),
                    (js ''type'', JStr (js ''web''))])])
   \<and> config_lookup demo_config (js ''doesnotexist'') = Absent
   \<and> fst (handleRequest access_platform demo_env
            (stored_world (getConfigKey demo_env) foo_config_text)
            (get_request (js ''/doesnotexist'') []))
       = Inr \<lparr>resp_status = 500,
              resp_body =
                js ''{\"message\":\"something went wrong\",\"err\":\"Error: token must have 3 parts\"}''\<rparr>
   \<and> (500::nat) \<noteq> 404"
proof -
  have c1: "JSON_parse foo_config_text
     = Inr (JObj [(js ''workload1'',
              JObj [(js ''provider'', JStr (js ''example'')), (js ''host'', JStr (js ''foo.com'')),
                    (js ''type'', JStr (js ''web''))])])"
    by code_simp
  have c2: "config_lookup demo_config (js ''doesnotexist'') = Absent"
    by code_simp
  have c3: "fst (handleRequest access_platform demo_env
            (stored_world (getConfigKey demo_env) foo_config_text)
            (get_request (js ''/doesnotexist'') []))
       = Inr \<lparr>resp_status = 500,
              resp_body =
                js ''{\"message\":\"something went wrong\",\"err\":\"Error: token must have 3 parts\"}''\<rparr>"
    by code_simp
  from c1 c2 c3 show ?thesis by simp
qed

text \<open>
  C5, amended. Whenever the dispatcher \<open>forwardRequest\<close> runs on a request whose first
  non-empty path segment is not a property of the routing table it is given, it answers
  with status 404 and the body \<open>Workload <segment> not found\<close>.
\<close>

theorem forwardRequest_unknown_workload:
  assumes "pathParts r = name # rest" and "config_lookup config name = Absent"
  shows "forwardRequest p config r
           = \<lparr>resp_status = 404, resp_body = js ''Workload '' @ name @ js '' not found''\<rparr>"
  using assms by (simp add: forwardRequest_def text_response_def)


theorem forwardRequest_unknown_workload_witness:
  "pathParts (get_request (js ''/doesnotexist'') []) = [js ''doesnotexist'']
   \<and> config_lookup demo_config (js ''doesnotexist'') = Absent
   \<and> forwardRequest access_platform demo_config (get_request (js ''/doesnotexist'') [])
       = \<lparr>resp_status = 404, resp_body = js ''Workload doesnotexist not found''\<rparr>"
proof -
  have h1: "pathParts (get_request (js ''/doesnotexist'') []) = js ''doesnotexist'' # []"
    by code_simp
  have h2: "config_lookup demo_config (js ''doesnotexist'') = Absent"
    by code_simp
  have t: "js ''Workload '' @ js ''doesnotexist'' @ js '' not found''
             = js ''Workload doesnotexist not found''"
    by (simp add: js_def)
  from forwardRequest_unknown_workload[OF h1 h2, of access_platform] h1 h2 t
  show ?thesis by simp
qed

text \<open>
  C6, as stated, fails for token verification: the error handler puts the error's own
  string into the response. A request whose cookie carries a token with a bad signature
  is answered with a body that spells out \<open>failed to verify token\<close>.
\<close>

theorem onError_relays_text_counterexample:
  "verifyToken access_platform empty_world expired_forged_token
     = Inl (Error (js ''failed to verify token''))
   \<and> fst (handleRequest access_platform demo_env
            (stored_world (getConfigKey demo_env) foo_config_text)
            ((get_request (js ''/'') []) \<lparr>req_cookie := Some expired_forged_token\<rparr>))
       = Inr \<lparr>resp_status = 500,
              resp_body = js ''{\"message\":\"something went wrong\",\"err\":\"Error: ''
                          @ js ''failed to verify token'' @ js ''\"}''\<rparr>"
proof -
  have c1: "verifyToken access_platform empty_world expired_forged_token
     = Inl (Error (js ''failed to verify token''))"
    by code_simp
  have c2: "fst (handleRequest access_platform demo_env
            (stored_world (getConfigKey demo_env) foo_config_text)
            ((get_request (js ''/'') []) \<lparr>req_cookie := Some expired_forged_token\<rparr>))
       = Inr \<lparr>resp_status = 500,
              resp_body = js ''{\"message\":\"something went wrong\",\"err\":\"Error: ''
                          @ js ''failed to verify token'' @ js ''\"}''\<rparr>"
    by code_simp
  from c1 c2 show ?thesis by blast
qed

text \<open>
  C6, amended. A failure of the outbound call in the dispatcher, whatever the error and
  whether the routing table's entry for the first segment is its own or inherited from
  \<^verbatim>\<open>Object.prototype\<close>, is answered with status 500 and exactly the fixed body
  \<open>Error forwarding request to remote host\<close>. An error that reaches the error handler
  and is not an \<open>HTTPException\<close>, such as a token verification failure, is answered
  with status 500 and a JSON body made of the fixed message \<open>something went wrong\<close> and
  the error's string form; for an \<^verbatim>\<open>Error\<close> with message \<open>m\<close> that string is
  \<open>Error: m\<close>, and just \<open>Error\<close> when the message is empty.
\<close>

theorem error_responses:
  "(\<forall>name rest err.
       pathParts r = name # rest \<longrightarrow> config_lookup config name \<noteq> Absent
       \<longrightarrow> p_fetch p (forward_fetch
                      (case config_lookup config name of Own wl \<Rightarrow> host wl | _ \<Rightarrow> js ''undefined'') r)
           = Inl err
       \<longrightarrow> forwardRequest p config r
           = \<lparr>resp_status = 500, resp_body = js ''Error forwarding request to remote host''\<rparr>)
   \<and> (\<forall>err. (\<forall>st m. err \<noteq> HTTPException st m) \<longrightarrow> (\<forall>t. err \<noteq> ThrownString t)
          \<longrightarrow> err \<noteq> Unmodelled
          \<longrightarrow> onError p err
              = Inr \<lparr>resp_status = 500,
                     resp_body = JSON_stringify
                       (JObj [(js ''message'', JStr (js ''something went wrong'')),
                              (js ''err'', JStr (err_toString p err))])\<rparr>)
   \<and> (\<forall>m. err_toString p (Error m) = (if m = [] then js ''Error'' else js ''Error: '' @ m))"
proof (intro conjI allI impI)
  fix name rest err
  assume a: "pathParts r = name # rest" "config_lookup config name \<noteq> Absent"
    "p_fetch p (forward_fetch
        (case config_lookup config name of Own wl \<Rightarrow> host wl | _ \<Rightarrow> js ''undefined'') r) = Inl err"
  then show "forwardRequest p config r
           = \<lparr>resp_status = 500, resp_body = js ''Error forwarding request to remote host''\<rparr>"
    by (cases "config_lookup config name") (simp_all add: forwardRequest_def text_response_def)
next
  fix err
  assume "\<forall>st m. err \<noteq> HTTPException st m" "\<forall>t. err \<noteq> ThrownString t" "err \<noteq> Unmodelled"
  then show "onError p err
              = Inr \<lparr>resp_status = 500,
                     resp_body = JSON_stringify
                       (JObj [(js ''message'', JStr (js ''something went wrong'')),
                              (js ''err'', JStr (err_toString p err))])\<rparr>"
    by (cases err) (simp_all add: onError_def json_response_def)
next
  fix m
  show "err_toString p (Error m) = (if m = [] then js ''Error'' else js ''Error: '' @ m)"
    by (simp add: err_toString_def Error_toString_def)
qed


theorem error_responses_witness:
  "p_fetch (demo_platform no_network)
      (forward_fetch (js ''foo.com'') (get_request (js ''/workload1/path'') []))
     = Inl (PlatformError (js ''network error''))
   \<and> forwardRequest (demo_platform no_network) demo_config
         (get_request (js ''/workload1/path'') [])
       = \<lparr>resp_status = 500, resp_body = js ''Error forwarding request to remote host''\<rparr>
   \<and> config_lookup demo_config (js ''toString'') = Inherited
   \<and> forwardRequest (demo_platform no_network) demo_config
         (get_request (js ''/toString/path'') [])
       = \<lparr>resp_status = 500, resp_body = js ''Error forwarding request to remote host''\<rparr>
   \<and> onError (demo_platform no_network) (Error (js ''failed to verify token''))
       = Inr \<lparr>resp_status = 500,
              resp_body =
                js ''{\"message\":\"something went wrong\",\"err\":\"Error: failed to verify token\"}''\<rparr>
   \<and> onError (demo_platform no_network) (Error [])
       = Inr \<lparr>resp_status = 500,
              resp_body = js ''{\"message\":\"something went wrong\",\"err\":\"Error\"}''\<rparr>"
proof -
  let ?P = "demo_platform no_network"
  let ?r = "get_request (js ''/workload1/path'') []"
  let ?r' = "get_request (js ''/toString/path'') []"
  let ?wl = "\<lparr>provider = js ''example'', host = js ''foo.com'', wtype = js ''web''\<rparr>"
  have h1: "pathParts ?r = js ''workload1'' # [js ''path'']"
    by code_simp
  have h2: "config_lookup demo_config (js ''workload1'') = Own ?wl"
    by code_simp
  have h3: "p_fetch ?P (forward_fetch (host ?wl) ?r) = Inl (PlatformError (js ''network error''))"
    by (simp add: demo_platform_def no_network_def)
  have i1: "pathParts ?r' = js ''toString'' # [js ''path'']"
    by code_simp
  have i2: "config_lookup demo_config (js ''toString'') = Inherited"
    by code_simp
  have i3: "p_fetch ?P (forward_fetch (js ''undefined'') ?r')
              = Inl (PlatformError (js ''network error''))"
    by (simp add: demo_platform_def no_network_def)
  have t: "JSON_stringify
             (JObj [(js ''message'', JStr (js ''something went wrong'')),
                    (js ''err'', JStr (js ''Error: '' @ js ''failed to verify token''))])
           = js ''{\"message\":\"something went wrong\",\"err\":\"Error: failed to verify token\"}''"
    by code_simp
  have t': "JSON_stringify
             (JObj [(js ''message'', JStr (js ''something went wrong'')),
                    (js ''err'', JStr (js ''Error''))])
           = js ''{\"message\":\"something went wrong\",\"err\":\"Error\"}''"
    by code_simp
  have ne: "js ''failed to verify token'' \<noteq> []"
    by (simp add: js_def)
  have a: "forwardRequest ?P demo_config ?r
       = \<lparr>resp_status = 500, resp_body = js ''Error forwarding request to remote host''\<rparr>"
    using error_responses[of ?r demo_config ?P] h1 h2 h3 by simp
  have a': "forwardRequest ?P demo_config ?r'
       = \<lparr>resp_status = 500, resp_body = js ''Error forwarding request to remote host''\<rparr>"
    using error_responses[of ?r' demo_config ?P] i1 i2 i3 by simp
  have b: "onError ?P (Error (js ''failed to verify token''))
       = Inr \<lparr>resp_status = 500,
              resp_body = JSON_stringify
                (JObj [(js ''message'', JStr (js ''something went wrong'')),
                       (js ''err'', JStr (js ''Error: '' @ js ''failed to verify token''))])\<rparr>"
    using error_responses[of ?r demo_config ?P] ne by simp
  have b': "onError ?P (Error [])
       = Inr \<lparr>resp_status = 500,
              resp_body = JSON_stringify
                (JObj [(js ''message'', JStr (js ''something went wrong'')),
                       (js ''err'', JStr (js ''Error''))])\<rparr>"
    using error_responses[of ?r demo_config ?P] by simp
  from a a' b b' h3 i2 t t' show ?thesis by simp
qed


section \<open>Signing and then verifying\<close>

lemma b64_char_table: "\<forall>n \<in> set [0..63]. b64_char n \<noteq> 0x2E \<and> b64_char n \<noteq> 0x3D"
  by code_simp

lemma b64_char_not_dot:
  assumes "0 \<le> n" and "n < 64"
  shows "b64_char n \<noteq> 0x2E"
  using b64_char_table assms by simp

lemma b64_encode_no_dot:
  assumes "\<forall>x \<in> set xs. 0 \<le> x \<and> x < 256"
  shows "0x2E \<notin> set (b64_encode xs)"
  using assms
proof (induction xs rule: b64_encode.induct)
  case 1
  then show ?case by simp
next
  case (2 a)
  then have "0 \<le> a" "a < 256" by auto
  then have "0 \<le> a div 4" "a div 4 < 64" "0 \<le> (a mod 4) * 16" "(a mod 4) * 16 < 64"
    by auto
  then show ?case using b64_char_not_dot by auto
next
  case (3 a b)
  then have "0 \<le> a" "a < 256" "0 \<le> b" "b < 256" by auto
  then have "0 \<le> a div 4" "a div 4 < 64"
    "0 \<le> (a mod 4) * 16 + b div 16" "(a mod 4) * 16 + b div 16 < 64"
    "0 \<le> (b mod 16) * 4" "(b mod 16) * 4 < 64"
    by auto
  then show ?case using b64_char_not_dot by auto
next
  case (4 a b c rest)
  then have "0 \<le> a" "a < 256" "0 \<le> b" "b < 256" "0 \<le> c" "c < 256" by auto
  then have "0 \<le> a div 4" "a div 4 < 64"
    "0 \<le> (a mod 4) * 16 + b div 16" "(a mod 4) * 16 + b div 16 < 64"
    "0 \<le> (b mod 16) * 4 + c div 64" "(b mod 16) * 4 + c div 64 < 64"
    "0 \<le> c mod 64" "c mod 64 < 64"
    by auto
  moreover have "0x2E \<notin> set (b64_encode rest)" using 4 by simp
  ultimately show ?case using b64_char_not_dot by auto
qed

lemma base64url_stringify_no_dot:
  assumes "base64url_stringify a = Inr s"
  shows "0x2E \<notin> set s"
proof -
  have r: "\<forall>x \<in> set (map uint (String_fromCharCode a)). 0 \<le> x \<and> x < 256"
    by (auto simp: String_fromCharCode_def uint_up_ucast is_up intro: order_less_le_trans[OF uint_lt2p])
  from assms have "s = replace_char 0x2F 0x5F (replace_char 0x2B 0x2D
                        (filter (\<lambda>c. c \<noteq> 0x3D) (b64_encode (map uint (String_fromCharCode a)))))"
    by (auto simp: base64url_stringify_def btoa_def split: if_splits sum.splits)
  moreover have "0x2E \<notin> set (b64_encode (map uint (String_fromCharCode a)))"
    using r by (rule b64_encode_no_dot)
  ultimately show ?thesis by (auto simp: replace_char_def)
qed

lemma js_split_single:
  assumes "d \<notin> set c"
  shows "js_split d c = [c]"
  using assms by (induction c) auto

lemma js_split_append:
  assumes "d \<notin> set a"
  shows "js_split d (a @ d # rest) = a # js_split d rest"
  using assms by (induction a) auto

lemma js_split_three:
  assumes "d \<notin> set a" and "d \<notin> set b" and "d \<notin> set c"
  shows "js_split d (a @ [d] @ b @ [d] @ c) = [a, b, c]"
  using assms by (simp add: js_split_append js_split_single)

lemma decode_Iuki: "decode_segment (js ''Iuki'') = Inr (JStr [0xFFFD])"
  by code_simp

lemma encode_e_acute:
  "base64url_stringify (asciiToUint8Array (JSON_stringify (JStr [0xE9]))) = Inr (js ''Iuki'')"
  by code_simp

lemma verifyToken_returns_payload:
  assumes "verifyToken p w token = Inr v"
  shows "\<exists>t. parseJWT token = Inr t \<and> v = payload t"
  using assms
  by (auto simp: verifyToken_def split: sum.splits if_splits)


text \<open>
  C1 at a payload that is not ASCII. \<open>signJWT\<close> turns the text of
  \<open>JSON.stringify(payload)\<close> into bytes with \<open>asciiToUint8Array\<close>, which keeps the low
  eight bits of each UTF-16 code unit, while \<open>parseJWT\<close> reads the bytes back as UTF-8.
  For the payload \<open>"e-acute"\<close> (one code unit, 0xE9) the payload segment of every token
  \<open>signJWT\<close> returns is \<open>Iuki\<close>, the bytes 22 E9 22, which is not UTF-8: \<open>parseJWT\<close>
  decodes it to the string U+FFFD. So whatever the keys and the signature are,
  \<open>verifyToken\<close> never returns the payload that was signed.
\<close>

theorem signJWT_non_ascii_payload:
  assumes "signJWT p e w (JStr [0xE9]) = (Inr token, w')"
  shows "(\<exists>encHeader encSig. token = encHeader @ js ''.Iuki.'' @ encSig)
       \<and> verifyToken p w' token \<noteq> Inr (JStr [0xE9])"
proof -
  from assms obtain hdr signingKey encHeader sig encSig where
    eh: "base64url_stringify (asciiToUint8Array (JSON_stringify hdr)) = Inr encHeader"
    and es: "base64url_stringify sig = Inr encSig"
    and tok: "token = (encHeader @ [0x2E] @ js ''Iuki'') @ [0x2E] @ encSig"
    by (auto simp: signJWT_def encode_e_acute Let_def simp del: JSON_stringify.simps
             split: sum.splits prod.splits)
  have form: "token = encHeader @ js ''.Iuki.'' @ encSig"
    using tok by (simp add: js_def)
  have nd: "0x2E \<notin> set encHeader" "0x2E \<notin> set encSig"
    using eh es base64url_stringify_no_dot by blast+
  have ni: "(0x2E :: cu) \<notin> set (js ''Iuki'')"
    by (simp add: js_def)
  have sp: "js_split 0x2E token = [encHeader, js ''Iuki'', encSig]"
    using js_split_three[OF nd(1) ni nd(2)] tok by simp
  have pl: "payload t = JStr [0xFFFD]" if "parseJWT token = Inr t" for t
    using that sp by (auto simp: parseJWT_def decode_Iuki split: sum.splits)
  have "verifyToken p w' token \<noteq> Inr (JStr [0xE9])"
  proof
    assume "verifyToken p w' token = Inr (JStr [0xE9])"
    then obtain t where "parseJWT token = Inr t" and "JStr [0xE9] = payload t"
      using verifyToken_returns_payload by blast
    with pl show False by simp
  qed
  with form show ?thesis by blast
qed


theorem signJWT_non_ascii_payload_witness:
  "signJWT (demo_platform no_network) demo_env empty_world (JStr [0xE9])
     = (Inr accented_token,
        snd (signJWT (demo_platform no_network) demo_env empty_world (JStr [0xE9])))
   \<and> (\<exists>encHeader encSig. accented_token = encHeader @ js ''.Iuki.'' @ encSig)
   \<and> parseJWT accented_token
       = Inr \<lparr>to_be_validated =
                js ''eyJhbGciOiJSUzI1NiIsImtpZCI6IjQyNDI0MjQyNDI0MjQyNDI0MjQyNDI0MjQyNDI0MjQyNDI0MjQyNDIifQ.Iuki'',
              header = JObj [(js ''alg'', JStr (js ''RS256'')),
                             (js ''kid'', JStr (js ''4242424242424242424242424242424242424242''))],
              payload = JStr [0xFFFD], signature = js ''TQ''\<rparr>
   \<and> verifyToken (demo_platform no_network)
         (snd (signJWT (demo_platform no_network) demo_env empty_world (JStr [0xE9])))
         accented_token
       \<noteq> Inr (JStr [0xE9])"
proof -
  have f: "fst (signJWT (demo_platform no_network) demo_env empty_world (JStr [0xE9]))
             = Inr accented_token"
    by code_simp
  have h: "signJWT (demo_platform no_network) demo_env empty_world (JStr [0xE9])
     = (Inr accented_token,
        snd (signJWT (demo_platform no_network) demo_env empty_world (JStr [0xE9])))"
    using f by (simp add: prod_eq_iff)
  have pj: "parseJWT accented_token
       = Inr \<lparr>to_be_validated =
                js ''eyJhbGciOiJSUzI1NiIsImtpZCI6IjQyNDI0MjQyNDI0MjQyNDI0MjQyNDI0MjQyNDI0MjQyNDI0MjQyNDIifQ.Iuki'',
              header = JObj [(js ''alg'', JStr (js ''RS256'')),
                             (js ''kid'', JStr (js ''4242424242424242424242424242424242424242''))],
              payload = JStr [0xFFFD], signature = js ''TQ''\<rparr>"
    by code_simp
  from signJWT_non_ascii_payload[OF h] h pj show ?thesis by blast
qed

end
